theory Spec2Isabelle
  imports Complex_Main "HOL-Library.Multiset" "HOL-Library.AList"
begin

section \<open>Route exposure: a shallow embedding of the two computation scripts\<close>

text \<open>
  The scripts \<^verbatim>\<open>compute_route_exposure.py\<close> (v1, log-scaled fetch) and
  \<^verbatim>\<open>compute_route_exposure_v2.py\<close> (v2, shelter signature) are embedded function by
  function. Python floats are modelled as the real numbers: every arithmetic operation is
  the exact one, and \<^verbatim>\<open>round(x, k)\<close> rounds the exact decimal half-to-even. The projection
  \<^verbatim>\<open>wgs84_to_utm\<close> (pyproj) and the land geometry (shapely) are external: the projection
  is a function parameter of type \<open>real \<Rightarrow> real \<Rightarrow> real \<times> real\<close> (longitude, latitude), the
  land geometry is its containment test, a predicate on planar points. The module-level
  tables \<^verbatim>\<open>PORTS\<close>, \<^verbatim>\<open>ROUTES\<close> and \<^verbatim>\<open>EXPECTED_DISTANCES\<close> are passed explicitly, so
  that the theorems hold for every table and not only for the one shipped; the tables of
  the scripts are defined below as well.
\<close>

subsection \<open>Data\<close>

type_synonym point = "real \<times> real"

type_synonym land = "point \<Rightarrow> bool"

type_synonym projection = "real \<Rightarrow> real \<Rightarrow> point"

record port =
  lat :: real
  lon :: real
  name :: string

record route =
  route_id :: string
  origin :: string
  dest :: string

datatype py_error = KeyError | ZeroDivisionError | FileNotFoundError

definition PORTS :: "(string \<times> port) list" where
  "PORTS =
    [(''woods-hole'', \<lparr>lat = 41.5234, lon = -70.6693, name = ''Woods Hole''\<rparr>),
     (''hyannis'', \<lparr>lat = 41.6362, lon = -70.2826, name = ''Hyannis''\<rparr>),
     (''vineyard-haven'', \<lparr>lat = 41.4535, lon = -70.6036, name = ''Vineyard Haven''\<rparr>),
     (''oak-bluffs'', \<lparr>lat = 41.4571, lon = -70.5566, name = ''Oak Bluffs''\<rparr>),
     (''nantucket'', \<lparr>lat = 41.2835, lon = -70.0995, name = ''Nantucket''\<rparr>)]"

definition ROUTES :: "route list" where
  "ROUTES =
    [\<lparr>route_id = ''wh-vh-ssa'', origin = ''woods-hole'', dest = ''vineyard-haven''\<rparr>,
     \<lparr>route_id = ''vh-wh-ssa'', origin = ''vineyard-haven'', dest = ''woods-hole''\<rparr>,
     \<lparr>route_id = ''wh-ob-ssa'', origin = ''woods-hole'', dest = ''oak-bluffs''\<rparr>,
     \<lparr>route_id = ''ob-wh-ssa'', origin = ''oak-bluffs'', dest = ''woods-hole''\<rparr>,
     \<lparr>route_id = ''hy-nan-ssa'', origin = ''hyannis'', dest = ''nantucket''\<rparr>,
     \<lparr>route_id = ''nan-hy-ssa'', origin = ''nantucket'', dest = ''hyannis''\<rparr>,
     \<lparr>route_id = ''hy-nan-hlc'', origin = ''hyannis'', dest = ''nantucket''\<rparr>,
     \<lparr>route_id = ''nan-hy-hlc'', origin = ''nantucket'', dest = ''hyannis''\<rparr>,
     \<lparr>route_id = ''hy-vh-hlc'', origin = ''hyannis'', dest = ''vineyard-haven''\<rparr>,
     \<lparr>route_id = ''vh-hy-hlc'', origin = ''vineyard-haven'', dest = ''hyannis''\<rparr>]"

text \<open>The 16 compass directions (wind-from bearing in degrees), in the dict's insertion order.\<close>

definition COMPASS_DIRECTIONS :: "(string \<times> real) list" where
  "COMPASS_DIRECTIONS =
    [(''N'', 0), (''NNE'', 22.5), (''NE'', 45), (''ENE'', 67.5),
     (''E'', 90), (''ESE'', 112.5), (''SE'', 135), (''SSE'', 157.5),
     (''S'', 180), (''SSW'', 202.5), (''SW'', 225), (''WSW'', 247.5),
     (''W'', 270), (''WNW'', 292.5), (''NW'', 315), (''NNW'', 337.5)]"

subsection \<open>Python and numpy primitives\<close>

text \<open>\<^verbatim>\<open>range(n)\<close>: empty for \<open>n \<le> 0\<close>.\<close>

definition py_range :: "int \<Rightarrow> int list" where
  "py_range n = [0..n - 1]"

text \<open>\<^verbatim>\<open>math.radians\<close>.\<close>

definition radians :: "real \<Rightarrow> real" where
  "radians d = d * pi / 180"

subsection \<open>Route sampling\<close>

text \<open>
  \<^verbatim>\<open>sample_route_points(origin, dest, n_points)\<close>, the same in both scripts: the two ports
  are projected, and point \<open>i\<close> of \<^verbatim>\<open>range(n_points)\<close> is the interpolation at
  \<open>t = (i + 0.5) / n_points\<close>. The division is inside the loop, so it is never reached with
  \<open>n_points = 0\<close>; the function has no check of \<open>n_points\<close> and no \<^verbatim>\<open>raise\<close>.
\<close>

definition sample_route_points :: "projection \<Rightarrow> port \<Rightarrow> port \<Rightarrow> int \<Rightarrow> point list" where
  "sample_route_points wgs84_to_utm origin_port dest_port n_points =
    (let (x1, y1) = wgs84_to_utm (lon origin_port) (lat origin_port);
         (x2, y2) = wgs84_to_utm (lon dest_port) (lat dest_port)
     in map (\<lambda>i. let t = (of_int i + 0.5) / of_int n_points
                 in (x1 + t * (x2 - x1), y1 + t * (y2 - y1)))
            (py_range n_points))"

subsection \<open>Ray casting\<close>

text \<open>
  \<^verbatim>\<open>np.arange(start, stop, step)\<close> has \<open>\<lceil>(stop - start) / step\<rceil>\<close> elements (none when that
  is not positive), element \<open>k\<close> being \<open>start + k * step\<close>.
\<close>

definition np_arange :: "real \<Rightarrow> real \<Rightarrow> real \<Rightarrow> real list" where
  "np_arange start stop step =
    map (\<lambda>k. start + of_nat k * step) [0..<nat \<lceil>(stop - start) / step\<rceil>]"

text \<open>
  The body shared by \<^verbatim>\<open>compute_fetch_distance\<close> (v1) and \<^verbatim>\<open>cast_ray_to_land\<close> (v2), which
  differ only in the module constant \<^verbatim>\<open>RAY_STEP_M\<close>: the loop over
  \<^verbatim>\<open>np.arange(step_m, max_distance_m + step_m, step_m)\<close> returns \<open>dist / 1000\<close> at the first
  distance whose test point the land contains, and \<open>max_distance_m / 1000\<close> after the loop.
\<close>

definition ray_test_point :: "point \<Rightarrow> real \<Rightarrow> real \<Rightarrow> point" where
  "ray_test_point point_utm wind_from_degrees dist_m =
    (let (x, y) = point_utm;
         angle_rad = radians wind_from_degrees;
         dx = sin angle_rad;
         dy = cos angle_rad
     in (x + dx * dist_m, y + dy * dist_m))"

definition ray_march :: "real \<Rightarrow> point \<Rightarrow> real \<Rightarrow> land \<Rightarrow> real \<Rightarrow> real" where
  "ray_march step_m point_utm wind_from_degrees land_geom max_distance_m =
    (case find (\<lambda>dist_m. land_geom (ray_test_point point_utm wind_from_degrees dist_m))
               (np_arange step_m (max_distance_m + step_m) step_m) of
       Some dist_m \<Rightarrow> dist_m / 1000
     | None \<Rightarrow> max_distance_m / 1000)"

text \<open>The distances the loop tests, in order (the land is consulted nowhere else).\<close>

definition tested_distances :: "real \<Rightarrow> real \<Rightarrow> real list" where
  "tested_distances step_m max_distance_m = np_arange step_m (max_distance_m + step_m) step_m"

text \<open>v1 constants and ray caster.\<close>

definition SAMPLE_POINTS_PER_ROUTE_v1 :: int where
  "SAMPLE_POINTS_PER_ROUTE_v1 = 10"

definition MAX_FETCH_KM :: real where
  "MAX_FETCH_KM = 50"

definition RAY_STEP_M_v1 :: real where
  "RAY_STEP_M_v1 = 100"

definition compute_fetch_distance :: "point \<Rightarrow> real \<Rightarrow> land \<Rightarrow> real \<Rightarrow> real" where
  "compute_fetch_distance point_utm wind_from_degrees land_geom max_distance_m =
    ray_march RAY_STEP_M_v1 point_utm wind_from_degrees land_geom max_distance_m"

text \<open>v2 constants and ray caster.\<close>

definition SAMPLE_POINTS_PER_ROUTE_v2 :: int where
  "SAMPLE_POINTS_PER_ROUTE_v2 = 50"

definition MAX_RAY_KM :: real where
  "MAX_RAY_KM = 30"

definition SHELTER_THRESHOLD_KM :: real where
  "SHELTER_THRESHOLD_KM = 3"

definition RAY_STEP_M_v2 :: real where
  "RAY_STEP_M_v2 = 50"

definition cast_ray_to_land :: "point \<Rightarrow> real \<Rightarrow> land \<Rightarrow> real \<Rightarrow> real" where
  "cast_ray_to_land point_utm wind_from_degrees land_geom max_distance_m =
    ray_march RAY_STEP_M_v2 point_utm wind_from_degrees land_geom max_distance_m"

subsection \<open>Reductions\<close>

text \<open>
  \<^verbatim>\<open>np.median\<close>: the middle element of the sorted values, or the mean of the two middle
  ones. On an empty list numpy returns nan, which no real number stands for; the model
  returns 0 there, and both scripts call it on lists of 10 and 50 elements only.
\<close>

definition np_median :: "real list \<Rightarrow> real" where
  "np_median xs =
    (let s = sort xs; n = length s
     in if n = 0 then 0
        else if odd n then s ! (n div 2)
        else (s ! (n div 2 - 1) + s ! (n div 2)) / 2)"

text \<open>\<^verbatim>\<open>np.mean\<close> (nan on an empty list; the scripts call it on the 16 scores).\<close>

definition np_mean :: "real list \<Rightarrow> real" where
  "np_mean xs = sum_list xs / of_nat (length xs)"

text \<open>
  \<^verbatim>\<open>round(x, ndigits)\<close>: to the nearest multiple of \<open>10^-ndigits\<close>. The model rounds the exact
  value and takes a tie to the even neighbour. Python rounds the binary float it holds,
  which lies a last bit above or below a decimal tie such as 0.175, so on a tie the script
  may store the other neighbour; the statements below about rounded values that can be
  ties are therefore phrased so that they hold for either neighbour (lemma
  \<open>py_round_near\<close>).
\<close>

definition round_half_even :: "real \<Rightarrow> int" where
  "round_half_even x =
    (let f = \<lfloor>x\<rfloor>; r = x - of_int f
     in if r < 1 / 2 then f
        else if 1 / 2 < r then f + 1
        else if even f then f else f + 1)"

definition py_round :: "real \<Rightarrow> nat \<Rightarrow> real" where
  "py_round x ndigits = of_int (round_half_even (x * 10 ^ ndigits)) / 10 ^ ndigits"

text \<open>
  \<^verbatim>\<open>sorted(items, key=lambda x: x[1], reverse=True)\<close>: Python's sort is stable, also with
  \<^verbatim>\<open>reverse=True\<close> (items with equal keys keep their order), so it is the stable insertion
  sort on the negated key.
\<close>

definition sorted_by_score_desc :: "('a \<times> real) list \<Rightarrow> ('a \<times> real) list" where
  "sorted_by_score_desc items = sort_key (\<lambda>x. - snd x) items"

subsection \<open>v1: exposure from the log-scaled median fetch\<close>

record exposure_result =
  route_id_v1 :: string
  origin_port_v1 :: string
  destination_port_v1 :: string
  exposure_by_dir :: "(string \<times> real) list"
  fetch_km_by_dir :: "(string \<times> real) list"
  avg_exposure :: real
  top_exposure_dirs_v1 :: "string list"

text \<open>
  The two lines that normalise the median fetch:
  \<^verbatim>\<open>exposure = math.log(median_fetch + 1) / math.log(MAX_FETCH_KM + 1)\<close> and
  \<^verbatim>\<open>exposure = max(0.0, min(1.0, exposure))\<close>. (\<^verbatim>\<open>math.log\<close> raises on an argument that is
  not positive; the medians are medians of ray distances, which are positive.)
\<close>

definition log_fetch_exposure :: "real \<Rightarrow> real" where
  "log_fetch_exposure median_fetch =
    (let exposure = ln (median_fetch + 1) / ln (MAX_FETCH_KM + 1)
     in max 0 (min 1 exposure))"

text \<open>The inner loop over the sample points, for one direction.\<close>

definition fetch_distances :: "point list \<Rightarrow> real \<Rightarrow> land \<Rightarrow> real list" where
  "fetch_distances sample_points degrees land_geom =
    map (\<lambda>p. compute_fetch_distance p degrees land_geom (MAX_FETCH_KM * 1000)) sample_points"

text \<open>
  \<^verbatim>\<open>compute_route_exposure\<close> after the two lookups in \<^verbatim>\<open>PORTS\<close>. The two dicts are filled
  in the order of \<^verbatim>\<open>COMPASS_DIRECTIONS.items()\<close>, whose keys are distinct, so they are the
  association lists below.
\<close>

definition route_exposure ::
  "projection \<Rightarrow> land \<Rightarrow> string \<Rightarrow> string \<Rightarrow> string \<Rightarrow> port \<Rightarrow> port \<Rightarrow> exposure_result" where
  "route_exposure wgs84_to_utm land_geom rid origin_slug dest_slug origin_port dest_port =
    (let sample_points =
           sample_route_points wgs84_to_utm origin_port dest_port SAMPLE_POINTS_PER_ROUTE_v1;
         medians = map (\<lambda>(dir_name, degrees).
                     (dir_name, np_median (fetch_distances sample_points degrees land_geom)))
                   COMPASS_DIRECTIONS;
         fetch_by_dir = map (\<lambda>(dir_name, median_fetch). (dir_name, py_round median_fetch 2)) medians;
         exp_by_dir = map (\<lambda>(dir_name, median_fetch).
                        (dir_name, py_round (log_fetch_exposure median_fetch) 3)) medians;
         avg = np_mean (map snd exp_by_dir);
         sorted_dirs = sorted_by_score_desc exp_by_dir;
         top_dirs = map fst (take 3 sorted_dirs)
     in \<lparr>route_id_v1 = rid, origin_port_v1 = origin_slug, destination_port_v1 = dest_slug,
         exposure_by_dir = exp_by_dir, fetch_km_by_dir = fetch_by_dir,
         avg_exposure = py_round avg 3, top_exposure_dirs_v1 = top_dirs\<rparr>)"

definition compute_route_exposure ::
  "projection \<Rightarrow> (string \<times> port) list \<Rightarrow> land \<Rightarrow> string \<Rightarrow> string \<Rightarrow> string
    \<Rightarrow> py_error + exposure_result" where
  "compute_route_exposure wgs84_to_utm ports land_geom rid origin_slug dest_slug =
    (case map_of ports origin_slug of
       None \<Rightarrow> Inl KeyError
     | Some origin_port \<Rightarrow>
        (case map_of ports dest_slug of
           None \<Rightarrow> Inl KeyError
         | Some dest_port \<Rightarrow>
             Inr (route_exposure wgs84_to_utm land_geom rid origin_slug dest_slug
                    origin_port dest_port)))"

subsection \<open>v2: shelter signature\<close>

record shelter_signature =
  route_id_v2 :: string
  origin_port_v2 :: string
  destination_port_v2 :: string
  shelter_ratio_by_dir :: "(string \<times> real) list"
  effective_open_fetch_km_by_dir :: "(string \<times> real) list"
  mean_shelter_ratio :: real
  top_exposure_dirs_v2 :: "string list"

definition intersection_distances :: "point list \<Rightarrow> real \<Rightarrow> land \<Rightarrow> real list" where
  "intersection_distances sample_points degrees land_geom =
    map (\<lambda>p. cast_ray_to_land p degrees land_geom (MAX_RAY_KM * 1000)) sample_points"

definition is_sheltered :: "real \<Rightarrow> bool" where
  "is_sheltered dist_km = (dist_km \<le> SHELTER_THRESHOLD_KM)"

text \<open>
  \<^verbatim>\<open>1.0 - (sum(sheltered_flags) / len(sheltered_flags))\<close>. With no flag the division raises;
  the script samples \<^verbatim>\<open>SAMPLE_POINTS_PER_ROUTE = 50\<close> points, so there are 50 flags.
\<close>

definition shelter_ratio :: "real list \<Rightarrow> real" where
  "shelter_ratio distances =
    (let sheltered_flags = map is_sheltered distances
     in 1 - of_nat (length (filter id sheltered_flags)) / of_nat (length sheltered_flags))"

definition effective_fetch :: "real list \<Rightarrow> real" where
  "effective_fetch distances =
    (let capped_distances = map (\<lambda>d. min d MAX_RAY_KM) distances
     in np_median capped_distances)"

definition shelter_signature_of ::
  "projection \<Rightarrow> land \<Rightarrow> string \<Rightarrow> string \<Rightarrow> string \<Rightarrow> port \<Rightarrow> port \<Rightarrow> shelter_signature" where
  "shelter_signature_of wgs84_to_utm land_geom rid origin_slug dest_slug origin_port dest_port =
    (let sample_points =
           sample_route_points wgs84_to_utm origin_port dest_port SAMPLE_POINTS_PER_ROUTE_v2;
         measured = map (\<lambda>(dir_name, degrees).
                      (dir_name, intersection_distances sample_points degrees land_geom))
                    COMPASS_DIRECTIONS;
         ratio_by_dir = map (\<lambda>(dir_name, ds). (dir_name, py_round (shelter_ratio ds) 3)) measured;
         fetch_by_dir = map (\<lambda>(dir_name, ds). (dir_name, py_round (effective_fetch ds) 2)) measured;
         mean_ratio = np_mean (map snd ratio_by_dir);
         sorted_dirs = sorted_by_score_desc ratio_by_dir;
         top_dirs = map fst (take 3 sorted_dirs)
     in \<lparr>route_id_v2 = rid, origin_port_v2 = origin_slug, destination_port_v2 = dest_slug,
         shelter_ratio_by_dir = ratio_by_dir, effective_open_fetch_km_by_dir = fetch_by_dir,
         mean_shelter_ratio = py_round mean_ratio 3, top_exposure_dirs_v2 = top_dirs\<rparr>)"

definition compute_shelter_signature ::
  "projection \<Rightarrow> (string \<times> port) list \<Rightarrow> land \<Rightarrow> string \<Rightarrow> string \<Rightarrow> string
    \<Rightarrow> py_error + shelter_signature" where
  "compute_shelter_signature wgs84_to_utm ports land_geom rid origin_slug dest_slug =
    (case map_of ports origin_slug of
       None \<Rightarrow> Inl KeyError
     | Some origin_port \<Rightarrow>
        (case map_of ports dest_slug of
           None \<Rightarrow> Inl KeyError
         | Some dest_port \<Rightarrow>
             Inr (shelter_signature_of wgs84_to_utm land_geom rid origin_slug dest_slug
                    origin_port dest_port)))"

subsection \<open>Validators\<close>

text \<open>\<^verbatim>\<open>math.atan2(y, x)\<close>.\<close>

definition py_atan2 :: "real \<Rightarrow> real \<Rightarrow> real" where
  "py_atan2 y x =
    (if 0 < x then arctan (y / x)
     else if x < 0 \<and> 0 \<le> y then arctan (y / x) + pi
     else if x < 0 then arctan (y / x) - pi
     else if 0 < y then pi / 2
     else if y < 0 then - (pi / 2)
     else 0)"

definition haversine_km :: "real \<Rightarrow> real \<Rightarrow> real \<Rightarrow> real \<Rightarrow> real" where
  "haversine_km lat1 lon1 lat2 lon2 =
    (let R = 6371;
         lat1_rad = radians lat1;
         lat2_rad = radians lat2;
         delta_lat = radians (lat2 - lat1);
         delta_lon = radians (lon2 - lon1);
         a = (sin (delta_lat / 2))\<^sup>2 + cos lat1_rad * cos lat2_rad * (sin (delta_lon / 2))\<^sup>2;
         c = 2 * py_atan2 (sqrt a) (sqrt (1 - a))
     in R * c)"

record distance_window =
  min_km :: real
  max_km :: real
  expected_km :: real

definition EXPECTED_DISTANCES :: "((string \<times> string) \<times> distance_window) list" where
  "EXPECTED_DISTANCES =
    [((''woods-hole'', ''vineyard-haven''), \<lparr>min_km = 8, max_km = 12, expected_km = 10\<rparr>),
     ((''woods-hole'', ''oak-bluffs''), \<lparr>min_km = 8, max_km = 14, expected_km = 11\<rparr>),
     ((''hyannis'', ''nantucket''), \<lparr>min_km = 40, max_km = 48, expected_km = 44\<rparr>),
     ((''hyannis'', ''vineyard-haven''), \<lparr>min_km = 35, max_km = 45, expected_km = 40\<rparr>)]"

text \<open>
  The loop of \<^verbatim>\<open>validate_route_distances\<close> with its accumulator \<^verbatim>\<open>all_pass\<close>; a port
  missing from \<^verbatim>\<open>PORTS\<close> raises \<^verbatim>\<open>KeyError\<close>.
\<close>

fun validate_distances_loop ::
  "(string \<times> port) list \<Rightarrow> ((string \<times> string) \<times> distance_window) list \<Rightarrow> bool
    \<Rightarrow> py_error + bool" where
  "validate_distances_loop ports [] all_pass = Inr all_pass"
| "validate_distances_loop ports (((origin_slug, dest_slug), expected) # rest) all_pass =
    (case map_of ports origin_slug of
       None \<Rightarrow> Inl KeyError
     | Some p1 \<Rightarrow>
        (case map_of ports dest_slug of
           None \<Rightarrow> Inl KeyError
         | Some p2 \<Rightarrow>
            (let d = haversine_km (lat p1) (lon p1) (lat p2) (lon p2);
                 pass = (min_km expected \<le> d \<and> d \<le> max_km expected)
             in validate_distances_loop ports rest (if \<not> pass then False else all_pass))))"

definition validate_route_distances ::
  "(string \<times> port) list \<Rightarrow> ((string \<times> string) \<times> distance_window) list \<Rightarrow> py_error + bool" where
  "validate_route_distances ports expected_distances =
    validate_distances_loop ports expected_distances True"

text \<open>
  \<^verbatim>\<open>validate_exposure_ordering\<close> (v2): \<^verbatim>\<open>next(..., None)\<close> is the first result with the
  route id; a result dict is never empty, so \<^verbatim>\<open>not hy_nan\<close> holds for \<^verbatim>\<open>None\<close> only.
  Here the rounding of the float subtraction decides the outcome at the margin
  (\<^verbatim>\<open>0.7 - 0.5\<close> is \<^verbatim>\<open>0.19999999999999996\<close> and fails the check), so the subtraction is the
  parameter \<open>float_sub\<close>: the double that \<^verbatim>\<open>hy_nan_ratio - wh_vh_ratio\<close> evaluates to. The
  comparison itself is exact, and a double is \<^verbatim>\<open>>= 0.2\<close> exactly when it is at least the
  number 0.2 (the literal denotes the least double that is).
\<close>

definition validate_exposure_ordering ::
  "(real \<Rightarrow> real \<Rightarrow> real) \<Rightarrow> shelter_signature list \<Rightarrow> bool" where
  "validate_exposure_ordering float_sub results =
    (case (find (\<lambda>r. route_id_v2 r = ''hy-nan-ssa'') results,
           find (\<lambda>r. route_id_v2 r = ''wh-vh-ssa'') results) of
       (Some hy_nan, Some wh_vh) \<Rightarrow>
         (let hy_nan_ratio = mean_shelter_ratio hy_nan;
              wh_vh_ratio = mean_shelter_ratio wh_vh;
              diff = float_sub hy_nan_ratio wh_vh_ratio
          in diff \<ge> 0.2)
     | _ \<Rightarrow> False)"

text \<open>
  \<^verbatim>\<open>validate_results\<close> (v1): the dict \<^verbatim>\<open>route_exposures\<close> is keyed by the pair of ports, a
  later result replacing an earlier one; the value returned is \<^verbatim>\<open>check1\<close>. The rest of
  the function prints.
\<close>

definition route_exposures :: "exposure_result list \<Rightarrow> (string \<times> string) \<rightharpoonup> real" where
  "route_exposures results =
    map_of (rev (map (\<lambda>r. ((origin_port_v1 r, destination_port_v1 r), avg_exposure r)) results))"

definition validate_results :: "exposure_result list \<Rightarrow> bool" where
  "validate_results results =
    (let hy_nan = (case route_exposures results (''hyannis'', ''nantucket'') of
                     None \<Rightarrow> 0 | Some v \<Rightarrow> v);
         wh_vh = (case route_exposures results (''woods-hole'', ''vineyard-haven'') of
                     None \<Rightarrow> 0 | Some v \<Rightarrow> v);
         check1 = (hy_nan > wh_vh)
     in check1)"

subsection \<open>The two pipelines\<close>

text \<open>
  What \<^verbatim>\<open>main\<close> does to the outside is kept in a state: the content of \<^verbatim>\<open>OUTPUT_FILE\<close>
  (\<open>None\<close> while the run has not written it) and, as a counter, the number of rays cast so
  far (calls of the ray caster: one per direction and sample point of each route computed).
  \<^verbatim>\<open>load_land_mask\<close> is external: its result is the parameter \<open>loaded\<close>, \<open>None\<close> for
  \<^verbatim>\<open>FileNotFoundError\<close>. \<^verbatim>\<open>datetime.now\<close> is the parameter \<open>now\<close>, the float subtraction of
  the ordering check the parameter \<open>float_sub\<close>. A run ends by returning,
  by \<^verbatim>\<open>sys.exit(code)\<close>, or with an exception nobody catches.
\<close>

record 'o world =
  artifact :: "'o option"
  rays_cast :: nat

datatype exit_status = Returned | SysExit int | Uncaught py_error

record output_v2 =
  version_v2 :: string
  algorithm :: string
  computed_at_v2 :: string
  sample_points_v2 :: int
  max_ray_km :: real
  shelter_threshold_km :: real
  ray_step_m_v2 :: real
  compass_buckets :: nat
  routes_v2 :: "(string \<times> shelter_signature) list"

record output_v1 =
  version_v1 :: string
  computed_at_v1 :: string
  sample_points_v1 :: int
  max_fetch_km :: real
  ray_step_m_v1 :: real
  routes_v1 :: "(string \<times> exposure_result) list"

text \<open>The loop over \<^verbatim>\<open>ROUTES\<close> that appends each signature to \<^verbatim>\<open>results\<close>.\<close>

fun compute_signatures ::
  "projection \<Rightarrow> (string \<times> port) list \<Rightarrow> land \<Rightarrow> route list \<Rightarrow> shelter_signature list
    \<Rightarrow> 'o world \<Rightarrow> (py_error + shelter_signature list) \<times> 'o world" where
  "compute_signatures wgs84_to_utm ports land_geom [] results w = (Inr results, w)"
| "compute_signatures wgs84_to_utm ports land_geom (r # rs) results w =
    (case compute_shelter_signature wgs84_to_utm ports land_geom
            (route_id r) (origin r) (dest r) of
       Inl e \<Rightarrow> (Inl e, w)
     | Inr signature \<Rightarrow>
         compute_signatures wgs84_to_utm ports land_geom rs (results @ [signature])
           (w\<lparr>rays_cast := rays_cast w
                + length COMPASS_DIRECTIONS * nat SAMPLE_POINTS_PER_ROUTE_v2\<rparr>))"

fun compute_exposures ::
  "projection \<Rightarrow> (string \<times> port) list \<Rightarrow> land \<Rightarrow> route list \<Rightarrow> exposure_result list
    \<Rightarrow> 'o world \<Rightarrow> (py_error + exposure_result list) \<times> 'o world" where
  "compute_exposures wgs84_to_utm ports land_geom [] results w = (Inr results, w)"
| "compute_exposures wgs84_to_utm ports land_geom (r # rs) results w =
    (case compute_route_exposure wgs84_to_utm ports land_geom
            (route_id r) (origin r) (dest r) of
       Inl e \<Rightarrow> (Inl e, w)
     | Inr exposure \<Rightarrow>
         compute_exposures wgs84_to_utm ports land_geom rs (results @ [exposure])
           (w\<lparr>rays_cast := rays_cast w
                + length COMPASS_DIRECTIONS * nat SAMPLE_POINTS_PER_ROUTE_v1\<rparr>))"

text \<open>\<^verbatim>\<open>{r['route_id']: r for r in results}\<close>: a later result with the same id replaces the value.\<close>

definition routes_dict :: "('r \<Rightarrow> string) \<Rightarrow> 'r list \<Rightarrow> (string \<times> 'r) list" where
  "routes_dict rid results = foldl (\<lambda>d r. AList.update (rid r) r d) [] results"

text \<open>
  The end of \<^verbatim>\<open>main\<close> in v2, after the loop over the routes: the ordering check on the
  results, \<^verbatim>\<open>sys.exit(1)\<close> when it fails, the write of the output otherwise.
\<close>

definition validate_and_save_v2 ::
  "(real \<Rightarrow> real \<Rightarrow> real) \<Rightarrow> shelter_signature list \<Rightarrow> string \<Rightarrow> output_v2 world
    \<Rightarrow> exit_status \<times> output_v2 world" where
  "validate_and_save_v2 float_sub results now w' =
    (if \<not> validate_exposure_ordering float_sub results then (SysExit 1, w')
     else
       (let output =
              \<lparr>version_v2 = ''2.0'', algorithm = ''shelter_signature'',
               computed_at_v2 = now,
               sample_points_v2 = SAMPLE_POINTS_PER_ROUTE_v2,
               max_ray_km = MAX_RAY_KM,
               shelter_threshold_km = SHELTER_THRESHOLD_KM,
               ray_step_m_v2 = RAY_STEP_M_v2, compass_buckets = 16,
               routes_v2 = routes_dict route_id_v2 results\<rparr>
        in (Returned, w'\<lparr>artifact := Some output\<rparr>)))"

definition main_v2 ::
  "(real \<Rightarrow> real \<Rightarrow> real) \<Rightarrow> projection \<Rightarrow> (string \<times> port) list \<Rightarrow> route list
    \<Rightarrow> ((string \<times> string) \<times> distance_window) list \<Rightarrow> land option \<Rightarrow> string
    \<Rightarrow> output_v2 world \<Rightarrow> exit_status \<times> output_v2 world" where
  "main_v2 float_sub wgs84_to_utm ports routes expected_distances loaded now w =
    (case validate_route_distances ports expected_distances of
       Inl e \<Rightarrow> (Uncaught e, w)
     | Inr False \<Rightarrow> (SysExit 1, w)
     | Inr True \<Rightarrow>
        (case loaded of
           None \<Rightarrow> (SysExit 1, w)
         | Some land_geom \<Rightarrow>
            (case compute_signatures wgs84_to_utm ports land_geom routes [] w of
               (Inl e, w') \<Rightarrow> (Uncaught e, w')
             | (Inr results, w') \<Rightarrow> validate_and_save_v2 float_sub results now w')))"

text \<open>
  v1: the value of \<^verbatim>\<open>validate_results(results)\<close> is not used (the call is a statement of
  its own), and the output is written after it.
\<close>

definition main_v1 ::
  "projection \<Rightarrow> (string \<times> port) list \<Rightarrow> route list \<Rightarrow> land option \<Rightarrow> string
    \<Rightarrow> output_v1 world \<Rightarrow> exit_status \<times> output_v1 world" where
  "main_v1 wgs84_to_utm ports routes loaded now w =
    (case loaded of
       None \<Rightarrow> (Returned, w)
     | Some land_geom \<Rightarrow>
        (case compute_exposures wgs84_to_utm ports land_geom routes [] w of
           (Inl e, w') \<Rightarrow> (Uncaught e, w')
         | (Inr results, w') \<Rightarrow>
             (let unused = validate_results results;
                  output =
                    \<lparr>version_v1 = ''1.0'', computed_at_v1 = now,
                     sample_points_v1 = SAMPLE_POINTS_PER_ROUTE_v1,
                     max_fetch_km = MAX_FETCH_KM, ray_step_m_v1 = RAY_STEP_M_v1,
                     routes_v1 = routes_dict route_id_v1 results\<rparr>
              in (Returned, w'\<lparr>artifact := Some output\<rparr>))))"

subsection \<open>Ranking of directions, as the specification words it\<close>

text \<open>
  The specification ranks directions by score, descending, ties broken by the enumeration
  order. \<open>precedes items a b\<close>: the first occurrence of \<open>a\<close> in \<open>items\<close> comes before an
  occurrence of \<open>b\<close>. \<open>outranks items a b\<close>: entry \<open>a\<close> has the higher score, or the same
  score and the earlier place. \<open>top_three_of items tops\<close>: \<open>tops\<close> are three entries of
  \<open>items\<close>, each outranking the ones after it and every entry left out.
\<close>

fun precedes :: "'a list \<Rightarrow> 'a \<Rightarrow> 'a \<Rightarrow> bool" where
  "precedes [] a b = False"
| "precedes (x # xs) a b = (if x = a then b \<in> set xs else precedes xs a b)"

definition outranks :: "('a \<times> real) list \<Rightarrow> 'a \<times> real \<Rightarrow> 'a \<times> real \<Rightarrow> bool" where
  "outranks items a b = (snd b < snd a \<or> (snd a = snd b \<and> precedes items a b))"

definition top_three_of :: "('a \<times> real) list \<Rightarrow> ('a \<times> real) list \<Rightarrow> bool" where
  "top_three_of items tops =
    (length tops = 3 \<and> set tops \<subseteq> set items \<and> sorted_wrt (outranks items) tops
     \<and> (\<forall>x \<in> set tops. \<forall>y \<in> set items - set tops. outranks items x y))"

subsection \<open>Inputs used in the examples\<close>

text \<open>
  A projection that takes longitude and latitude as planar coordinates, two land masks
  (land everywhere, land nowhere) and two ports of the scripts' table.
\<close>

definition plane :: projection where
  "plane lo la = (lo, la)"

definition all_land :: land where
  "all_land p = True"

definition open_water :: land where
  "open_water p = False"

definition woods_hole :: port where
  "woods_hole = \<lparr>lat = 41.5234, lon = -70.6693, name = ''Woods Hole''\<rparr>"

definition vineyard_haven :: port where
  "vineyard_haven = \<lparr>lat = 41.4535, lon = -70.6036, name = ''Vineyard Haven''\<rparr>"

text \<open>
  A projection that scales by 100, a land mask that is land from \<open>y = 100\<close> northwards, and
  two ports one degree of latitude apart: their route is the segment from \<open>(0, 0)\<close> to
  \<open>(0, 100)\<close>.
\<close>

definition scaled :: projection where
  "scaled lo la = (100 * lo, 100 * la)"

definition shore :: land where
  "shore p = (100 \<le> snd p)"

definition port_south :: port where
  "port_south = \<lparr>lat = 0, lon = 0, name = ''South''\<rparr>"

definition port_north :: port where
  "port_north = \<lparr>lat = 1, lon = 0, name = ''North''\<rparr>"

text \<open>
  Land everywhere except on the half-line due north of the origin (the rays test finitely
  many points, so a polygon with a narrow channel gives the same answers).
\<close>

definition north_channel :: land where
  "north_channel p = (fst p \<noteq> 0 \<or> snd p \<le> 0)"

text \<open>
  The port table of the scripts with Vineyard Haven at the coordinates of Woods Hole, and
  the state before a run: no output file, no ray cast.
\<close>

definition misplaced_ports :: "(string \<times> port) list" where
  "misplaced_ports =
    [(''woods-hole'', \<lparr>lat = 41.5234, lon = -70.6693, name = ''Woods Hole''\<rparr>),
     (''hyannis'', \<lparr>lat = 41.6362, lon = -70.2826, name = ''Hyannis''\<rparr>),
     (''vineyard-haven'', \<lparr>lat = 41.5234, lon = -70.6693, name = ''Vineyard Haven''\<rparr>),
     (''oak-bluffs'', \<lparr>lat = 41.4571, lon = -70.5566, name = ''Oak Bluffs''\<rparr>),
     (''nantucket'', \<lparr>lat = 41.2835, lon = -70.0995, name = ''Nantucket''\<rparr>)]"

text \<open>
  A subtraction without rounding error (as the float one is at \<^verbatim>\<open>1.0 - 1.0\<close>), and a table of
  expected distances with one window wide enough for any two ports.
\<close>

definition exact_sub :: "real \<Rightarrow> real \<Rightarrow> real" where
  "exact_sub a b = a - b"

definition wide_window :: "((string \<times> string) \<times> distance_window) list" where
  "wide_window =
    [((''hyannis'', ''nantucket''), \<lparr>min_km = 0, max_km = 60000, expected_km = 44\<rparr>)]"

definition fresh_v2 :: "output_v2 world" where
  "fresh_v2 = \<lparr>artifact = None, rays_cast = 0\<rparr>"

definition fresh_v1 :: "output_v1 world" where
  "fresh_v1 = \<lparr>artifact = None, rays_cast = 0\<rparr>"

section \<open>Properties\<close>

subsection \<open>The route sampler\<close>

lemma py_range_len: "length (py_range n) = nat n"
  by (simp add: py_range_def)

lemma py_range_nth: "i < nat n \<Longrightarrow> py_range n ! i = int i"
  by (simp add: py_range_def)

lemma set_py_range: "set (py_range n) = {0..n - 1}"
  by (simp add: py_range_def)

lemma lerp_not_endpoint:
  fixes t :: real
  assumes "0 < t" "t < 1" "(x1, y1) \<noteq> (x2, y2)"
  shows "(x1 + t * (x2 - x1), y1 + t * (y2 - y1)) \<noteq> (x1, y1)"
    and "(x1 + t * (x2 - x1), y1 + t * (y2 - y1)) \<noteq> (x2, y2)"
proof -
  show "(x1 + t * (x2 - x1), y1 + t * (y2 - y1)) \<noteq> (x1, y1)"
    using assms by auto
  have "x1 + t * (x2 - x1) = x2 \<longleftrightarrow> (1 - t) * (x1 - x2) = 0" for x1 x2 :: real
    by (simp add: algebra_simps)
  then show "(x1 + t * (x2 - x1), y1 + t * (y2 - y1)) \<noteq> (x2, y2)"
    using assms by auto
qed

text \<open>
  C3. For planar endpoints \<open>(x1, y1)\<close> and \<open>(x2, y2)\<close> (the projections of the two ports) and
  \<open>n \<ge> 1\<close>, the sampler returns exactly \<open>n\<close> points; point \<open>i\<close> (from 0) is the linear
  interpolation at \<open>t_i = (i + 0.5) / n\<close>; for distinct endpoints none of the points is an
  endpoint; and a call with the same arguments returns the same sequence.
\<close>

theorem sample_route_points_spec:
  assumes "1 \<le> n"
    and "wgs (lon a) (lat a) = (x1, y1)" and "wgs (lon b) (lat b) = (x2, y2)"
  shows "length (sample_route_points wgs a b n) = nat n
    \<and> (\<forall>i < nat n. sample_route_points wgs a b n ! i =
          (x1 + ((of_nat i + 0.5) / of_int n) * (x2 - x1),
           y1 + ((of_nat i + 0.5) / of_int n) * (y2 - y1)))
    \<and> ((x1, y1) \<noteq> (x2, y2) \<longrightarrow>
          (x1, y1) \<notin> set (sample_route_points wgs a b n)
        \<and> (x2, y2) \<notin> set (sample_route_points wgs a b n))
    \<and> (\<forall>wgs' a' b' n'. wgs' = wgs \<and> a' = a \<and> b' = b \<and> n' = n \<longrightarrow>
          sample_route_points wgs' a' b' n' = sample_route_points wgs a b n)"
proof (intro conjI)
  show "length (sample_route_points wgs a b n) = nat n"
    using assms by (simp add: sample_route_points_def py_range_len)
  show "\<forall>i < nat n. sample_route_points wgs a b n ! i =
          (x1 + ((of_nat i + 0.5) / of_int n) * (x2 - x1),
           y1 + ((of_nat i + 0.5) / of_int n) * (y2 - y1))"
    using assms by (simp add: sample_route_points_def py_range_len py_range_nth)
  show "(x1, y1) \<noteq> (x2, y2) \<longrightarrow>
          (x1, y1) \<notin> set (sample_route_points wgs a b n)
        \<and> (x2, y2) \<notin> set (sample_route_points wgs a b n)"
  proof
    assume ne: "(x1, y1) \<noteq> (x2, y2)"
    have t: "0 < (of_int i + 0.5) / (of_int n :: real) \<and> (of_int i + 0.5) / (of_int n :: real) < 1"
      if "i \<in> {0..n - 1}" for i
    proof -
      have "0 \<le> (of_int i :: real)" "(of_int i :: real) \<le> of_int n - 1" "0 < (of_int n :: real)"
        using that assms(1) by auto
      then show ?thesis by (simp add: field_simps)
    qed
    have pts: "\<exists>t. 0 < t \<and> t < 1 \<and> p = (x1 + t * (x2 - x1), y1 + t * (y2 - y1))"
      if "p \<in> set (sample_route_points wgs a b n)" for p
    proof -
      from that obtain i where i: "i \<in> {0..n - 1}"
        and p: "p = (x1 + ((of_int i + 0.5) / of_int n) * (x2 - x1),
                     y1 + ((of_int i + 0.5) / of_int n) * (y2 - y1))"
        using assms(2,3) by (auto simp: sample_route_points_def set_py_range)
      show ?thesis using t[OF i] p by blast
    qed
    show "(x1, y1) \<notin> set (sample_route_points wgs a b n)
        \<and> (x2, y2) \<notin> set (sample_route_points wgs a b n)"
      using pts lerp_not_endpoint[OF _ _ ne] by metis
  qed
  show "\<forall>wgs' a' b' n'. wgs' = wgs \<and> a' = a \<and> b' = b \<and> n' = n \<longrightarrow>
          sample_route_points wgs' a' b' n' = sample_route_points wgs a b n"
    by simp
qed

theorem sample_route_points_witness:
  "sample_route_points (\<lambda>lo la. (lo, la)) \<lparr>lat = 0, lon = 0, name = ''A''\<rparr>
      \<lparr>lat = 0, lon = 4, name = ''B''\<rparr> 2 = [(1, 0), (3, 0)]
   \<and> (0, 0) \<notin> set (sample_route_points (\<lambda>lo la. (lo, la)) \<lparr>lat = 0, lon = 0, name = ''A''\<rparr>
      \<lparr>lat = 0, lon = 4, name = ''B''\<rparr> 2)"
  using sample_route_points_spec[of 2 "\<lambda>lo la. (lo, la)" "\<lparr>lat = 0, lon = 0, name = ''A''\<rparr>" 0 0
        "\<lparr>lat = 0, lon = 4, name = ''B''\<rparr>" 4 0]
  by (simp add: nth_equalityI less_Suc_eq numeral_2_eq_2 list_eq_iff_nth_eq)

text \<open>
  C4 as stated does not hold: with \<open>n = 0\<close> the loop body never runs and the call returns
  the empty list; nothing is signalled.
\<close>

theorem sample_route_points_zero_returns:
  "sample_route_points (\<lambda>lo la. (lo, la)) \<lparr>lat = 0, lon = 0, name = ''A''\<rparr>
      \<lparr>lat = 0, lon = 4, name = ''B''\<rparr> 0 = []"
  by (simp add: sample_route_points_def py_range_def)

text \<open>
  C4, amended. For every projection and every two ports, the sampler called with sample
  count 0 returns the empty sequence of points.
\<close>

theorem sample_route_points_zero: "sample_route_points wgs a b 0 = []"
  by (simp add: sample_route_points_def py_range_def)


subsection \<open>The ray caster\<close>

text \<open>
  The loop tests the distances \<open>step, 2 * step, \<dots>, \<lceil>max / step\<rceil> * step\<close>, never the start
  point; it returns the first contained one (in km), or \<open>max / 1000\<close>. When \<open>max\<close> is a
  whole multiple of the step, as with the defaults of both scripts (50000 by 100, 30000
  by 50), the result lies between one step and the maximum range.
\<close>

lemma np_arange_steps:
  "step \<noteq> 0 \<Longrightarrow>
    np_arange step (mx + step) step = map (\<lambda>k. of_nat (Suc k) * step) [0..<nat \<lceil>mx / step\<rceil>]"
  by (simp add: np_arange_def algebra_simps)

lemma ray_march_cases:
  assumes "step \<noteq> 0"
  shows "(ray_march step p deg land_geom mx = mx / 1000
          \<and> (\<forall>k < nat \<lceil>mx / step\<rceil>. \<not> land_geom (ray_test_point p deg (of_nat (Suc k) * step))))
       \<or> (\<exists>k < nat \<lceil>mx / step\<rceil>.
            ray_march step p deg land_geom mx = of_nat (Suc k) * step / 1000
          \<and> land_geom (ray_test_point p deg (of_nat (Suc k) * step))
          \<and> (\<forall>j < k. \<not> land_geom (ray_test_point p deg (of_nat (Suc j) * step))))"
proof (cases "find (\<lambda>d. land_geom (ray_test_point p deg d)) (np_arange step (mx + step) step)")
  case None
  then have r: "ray_march step p deg land_geom mx = mx / 1000"
    by (simp add: ray_march_def)
  have "\<forall>k < nat \<lceil>mx / step\<rceil>. \<not> land_geom (ray_test_point p deg (of_nat (Suc k) * step))"
    using None assms unfolding find_None_iff np_arange_steps[OF assms] by auto
  then show ?thesis using r by blast
next
  case (Some d)
  then have r: "ray_march step p deg land_geom mx = d / 1000"
    by (simp add: ray_march_def)
  from Some obtain i where "i < nat \<lceil>mx / step\<rceil>" "d = of_nat (Suc i) * step"
    "land_geom (ray_test_point p deg (of_nat (Suc i) * step))"
    "\<forall>j < i. \<not> land_geom (ray_test_point p deg (of_nat (Suc j) * step))"
    unfolding find_Some_iff np_arange_steps[OF assms] by auto
  then show ?thesis
    using r by blast
qed

lemma ray_march_bounds:
  assumes "0 < step" and "mx = of_nat m * step" and "0 < m"
  shows "step / 1000 \<le> ray_march step p deg land_geom mx
       \<and> ray_march step p deg land_geom mx \<le> mx / 1000"
proof -
  have c: "nat \<lceil>mx / step\<rceil> = m" using assms by simp
  have s: "step \<noteq> 0" using assms by simp
  have lo: "step \<le> mx" using assms by (simp add: mult_le_cancel_right1)
  consider "ray_march step p deg land_geom mx = mx / 1000"
    | k where "k < m" "ray_march step p deg land_geom mx = of_nat (Suc k) * step / 1000"
    using ray_march_cases[OF s, of p deg land_geom mx] c by auto
  then show ?thesis
  proof cases
    case 1
    then show ?thesis using lo by simp
  next
    case 2
    have "of_nat (Suc k) * step \<le> of_nat m * step"
      using 2(1) assms(1) by (intro mult_right_mono) (simp_all add: Suc_le_eq del: of_nat_Suc)
    moreover have "step \<le> of_nat (Suc k) * step"
      using assms(1) by (simp add: mult_le_cancel_right1)
    ultimately show ?thesis using 2(2) assms(2) by simp
  qed
qed

lemma radians_0: "radians 0 = 0" by (simp add: radians_def)

text \<open>
  C5 at an input where the maximum range is not a whole multiple of the step: with
  \<^verbatim>\<open>max_distance_m = 250\<close> the v1 loop runs over \<^verbatim>\<open>np.arange(100, 350, 100)\<close>, tests the land
  at 300 m, beyond the maximum range, and returns 0.3 km for land that lies between 250 m
  and 1000 m north of the start point; the v2 caster does the same with 75 m and step 50.
\<close>

theorem compute_fetch_distance_overshoot:
  "tested_distances RAY_STEP_M_v1 250 = [100, 200, 300]
   \<and> compute_fetch_distance (0, 0) 0
        (\<lambda>(x, y). - 1000 < x \<and> x < 1000 \<and> 250 < y \<and> y < 1000) 250 = 3 / 10
   \<and> tested_distances RAY_STEP_M_v2 75 = [50, 100]
   \<and> cast_ray_to_land (0, 0) 0
        (\<lambda>(x, y). - 1000 < x \<and> x < 1000 \<and> 75 < y \<and> y < 1000) 75 = 1 / 10"
proof -
  have c1: "nat \<lceil>(350 - 100) / (100::real)\<rceil> = 3" by (simp add: ceiling_eq_iff)
  have a1: "np_arange 100 350 100 = [100, 200, 300]"
    unfolding np_arange_def c1 by (simp add: upt_rec)
  have c2: "nat \<lceil>(125 - 50) / (50::real)\<rceil> = 2"
  proof -
    have "\<lceil>(125 - 50) / (50::real)\<rceil> = 2" by (simp add: ceiling_eq_iff)
    then show ?thesis by simp
  qed
  have a2: "np_arange 50 125 50 = [50, 100]"
    unfolding np_arange_def c2 by (simp add: upt_rec)
  show ?thesis
    by (simp add: tested_distances_def compute_fetch_distance_def cast_ray_to_land_def
        RAY_STEP_M_v1_def RAY_STEP_M_v2_def ray_march_def a1 a2 ray_test_point_def radians_0)
qed

subsection \<open>Rounding and the log-fetch normalisation\<close>

lemma round_half_even_of_int: "round_half_even (of_int k) = k"
  by (simp add: round_half_even_def)

lemma round_half_even_bounds:
  "\<lfloor>x\<rfloor> \<le> round_half_even x \<and> round_half_even x \<le> \<lfloor>x\<rfloor> + 1"
  by (simp add: round_half_even_def Let_def)

lemma round_half_even_mono:
  assumes "x \<le> y"
  shows "round_half_even x \<le> round_half_even y"
proof (cases "\<lfloor>x\<rfloor> = \<lfloor>y\<rfloor>")
  case True
  then have "x - of_int \<lfloor>x\<rfloor> \<le> y - of_int \<lfloor>y\<rfloor>" using assms by simp
  then show ?thesis
    using True by (simp add: round_half_even_def Let_def)
next
  case False
  then have "\<lfloor>x\<rfloor> + 1 \<le> \<lfloor>y\<rfloor>"
    using floor_mono[OF assms] by linarith
  then show ?thesis
    using round_half_even_bounds[of x] round_half_even_bounds[of y] by linarith
qed

lemma py_round_mono: "x \<le> y \<Longrightarrow> py_round x n \<le> py_round y n"
  by (simp add: py_round_def round_half_even_mono divide_right_mono)

lemma py_round_of_int: "py_round (of_int k) n = of_int k"
proof -
  have "of_int k * (10::real) ^ n = of_int (k * 10 ^ n)" by simp
  then show ?thesis
    unfolding py_round_def by (simp only: round_half_even_of_int) simp
qed

lemma py_round_0: "py_round 0 n = 0"
  using py_round_of_int[of 0 n] by simp

lemma py_round_1: "py_round 1 n = 1"
  using py_round_of_int[of 1 n] by simp

lemma py_round_unit: "0 \<le> x \<Longrightarrow> x \<le> 1 \<Longrightarrow> 0 \<le> py_round x n \<and> py_round x n \<le> 1"
  using py_round_mono[of 0 x n] py_round_mono[of x 1 n] by (simp add: py_round_0 py_round_1)

lemma py_round_exact: "x * 10 ^ n = of_int k \<Longrightarrow> py_round x n = x"
  by (simp add: py_round_def round_half_even_of_int field_simps)

lemma py_round_grid: "\<exists>k::int. py_round x n = of_int k / 10 ^ n"
  by (auto simp: py_round_def)

lemma round_half_even_near: "\<bar>of_int (round_half_even y) - y\<bar> \<le> 1 / 2"
proof -
  have "of_int \<lfloor>y\<rfloor> \<le> y" "y < of_int \<lfloor>y\<rfloor> + 1" by linarith+
  then show ?thesis
    by (auto simp: round_half_even_def Let_def abs_le_iff)
qed

lemma py_round_near:
  "\<exists>k::int. py_round x n = of_int k / 10 ^ n \<and> \<bar>of_int k / 10 ^ n - x\<bar> \<le> 1 / (2 * 10 ^ n)"
proof -
  let ?k = "round_half_even (x * 10 ^ n)"
  have "\<bar>of_int ?k / 10 ^ n - x\<bar> = \<bar>of_int ?k - x * 10 ^ n\<bar> / 10 ^ n"
    by (simp add: field_simps abs_divide flip: abs_mult)
  also have "\<dots> \<le> (1 / 2) / 10 ^ n"
    using round_half_even_near[of "x * 10 ^ n"] by (intro divide_right_mono) simp_all
  finally have "\<bar>of_int ?k / 10 ^ n - x\<bar> \<le> 1 / (2 * 10 ^ n)" by simp
  then show ?thesis
    unfolding py_round_def by blast
qed

lemma log_fetch_exposure_unit: "0 \<le> log_fetch_exposure m \<and> log_fetch_exposure m \<le> 1"
  by (simp add: log_fetch_exposure_def Let_def)

lemma log_fetch_exposure_0: "log_fetch_exposure 0 = 0"
  by (simp add: log_fetch_exposure_def)

lemma log_fetch_exposure_max: "log_fetch_exposure MAX_FETCH_KM = 1"
  by (simp add: log_fetch_exposure_def MAX_FETCH_KM_def)

lemma log_fetch_exposure_mono:
  assumes "0 \<le> d1" "d1 \<le> d2"
  shows "log_fetch_exposure d1 \<le> log_fetch_exposure d2"
proof -
  have "ln (d1 + 1) \<le> ln (d2 + 1)" using assms by simp
  moreover have "0 < ln (MAX_FETCH_KM + 1)" by (simp add: MAX_FETCH_KM_def)
  ultimately have "ln (d1 + 1) / ln (MAX_FETCH_KM + 1) \<le> ln (d2 + 1) / ln (MAX_FETCH_KM + 1)"
    by (simp add: divide_right_mono)
  then show ?thesis
    unfolding log_fetch_exposure_def Let_def by (intro max.mono min.mono) simp_all
qed

lemma ln_ratio_not_fraction:
  fixes N :: nat
  assumes "0 < N"
  shows "ln (11 / 10) / ln (51::real) \<noteq> of_int k / of_nat N"
proof
  assume eq: "ln (11 / 10) / ln (51::real) = of_int k / of_nat N"
  have pos: "0 < ln (11 / 10 :: real)" "0 < ln (51::real)" by simp_all
  then have "0 < ln (11 / 10) / ln (51::real)" by simp
  then have kpos: "0 < k" using eq assms by (simp add: zero_less_divide_iff)
  define m where "m = nat k"
  have km: "of_int k = (of_nat m :: real)" using kpos by (simp add: m_def)
  from eq have "of_nat N * ln (11 / 10 :: real) = of_nat m * ln 51"
    using pos km assms by (simp add: field_simps)
  then have "ln ((11 / 10 :: real) ^ N) = ln (51 ^ m)"
    by (simp add: ln_realpow)
  then have "(11 / 10 :: real) ^ N = 51 ^ m"
    by (simp add: ln_inj_iff del: ln_realpow)
  then have "(11::real) ^ N = 51 ^ m * 10 ^ N"
    by (simp add: power_divide field_simps)
  then have "real ((11::nat) ^ N) = real (51 ^ m * 10 ^ N)"
    by simp
  then have "(11::nat) ^ N = 51 ^ m * 10 ^ N"
    by (simp only: of_nat_eq_iff)
  moreover have "odd ((11::nat) ^ N)" by simp
  moreover have "even ((51::nat) ^ m * 10 ^ N)" using assms by simp
  ultimately show False by simp
qed


subsection \<open>The two signature computers, unfolded\<close>

lemma compass_keys:
  "map fst COMPASS_DIRECTIONS =
    [''N'', ''NNE'', ''NE'', ''ENE'', ''E'', ''ESE'', ''SE'', ''SSE'',
     ''S'', ''SSW'', ''SW'', ''WSW'', ''W'', ''WNW'', ''NW'', ''NNW'']"
  by (simp add: COMPASS_DIRECTIONS_def)

lemma compass_distinct: "distinct (map fst COMPASS_DIRECTIONS)"
  unfolding compass_keys by simp

lemma compass_length: "length COMPASS_DIRECTIONS = 16"
  by (simp add: COMPASS_DIRECTIONS_def)

lemma map_of_map_values:
  assumes "distinct (map fst xs)" and "(k, v) \<in> set xs"
  shows "map_of (map (\<lambda>(k, v). (k, f v)) xs) k = Some (f v)"
proof -
  have "map fst (map (\<lambda>(k, v). (k, f v)) xs) = map fst xs"
    by (induction xs) auto
  then have "distinct (map fst (map (\<lambda>(k, v). (k, f v)) xs))"
    using assms(1) by (simp only:)
  moreover have "(k, f v) \<in> set (map (\<lambda>(k, v). (k, f v)) xs)"
    using assms(2) by force
  ultimately show ?thesis by (rule map_of_is_SomeI)
qed

lemma exposure_by_dir_eq:
  "exposure_by_dir (route_exposure wgs land_geom rid os ds a b) =
    map (\<lambda>(dir_name, degrees). (dir_name,
          py_round (log_fetch_exposure (np_median (fetch_distances
            (sample_route_points wgs a b SAMPLE_POINTS_PER_ROUTE_v1) degrees land_geom))) 3))
      COMPASS_DIRECTIONS"
  by (simp add: route_exposure_def Let_def case_prod_unfold comp_def)

lemma fetch_km_by_dir_eq:
  "fetch_km_by_dir (route_exposure wgs land_geom rid os ds a b) =
    map (\<lambda>(dir_name, degrees). (dir_name,
          py_round (np_median (fetch_distances
            (sample_route_points wgs a b SAMPLE_POINTS_PER_ROUTE_v1) degrees land_geom)) 2))
      COMPASS_DIRECTIONS"
  by (simp add: route_exposure_def Let_def case_prod_unfold comp_def)

lemma shelter_ratio_by_dir_eq:
  "shelter_ratio_by_dir (shelter_signature_of wgs land_geom rid os ds a b) =
    map (\<lambda>(dir_name, degrees). (dir_name,
          py_round (shelter_ratio (intersection_distances
            (sample_route_points wgs a b SAMPLE_POINTS_PER_ROUTE_v2) degrees land_geom)) 3))
      COMPASS_DIRECTIONS"
  by (simp add: shelter_signature_of_def Let_def case_prod_unfold comp_def)

lemma effective_fetch_by_dir_eq:
  "effective_open_fetch_km_by_dir (shelter_signature_of wgs land_geom rid os ds a b) =
    map (\<lambda>(dir_name, degrees). (dir_name,
          py_round (effective_fetch (intersection_distances
            (sample_route_points wgs a b SAMPLE_POINTS_PER_ROUTE_v2) degrees land_geom)) 2))
      COMPASS_DIRECTIONS"
  by (simp add: shelter_signature_of_def Let_def case_prod_unfold comp_def)

lemma sample_route_points_length: "length (sample_route_points wgs a b n) = nat n"
  by (simp add: sample_route_points_def py_range_len case_prod_unfold Let_def)

lemma ray_march_first:
  assumes "0 < step" and "0 < mx" and "land_geom (ray_test_point p deg step)"
  shows "ray_march step p deg land_geom mx = step / 1000"
proof -
  have s: "step \<noteq> 0" using assms by simp
  have "0 < mx / step" using assms by simp
  then have pos: "0 < nat \<lceil>mx / step\<rceil>" by simp
  have l0: "land_geom (ray_test_point p deg (of_nat (Suc 0) * step))" using assms(3) by simp
  from ray_march_cases[OF s, of p deg land_geom mx] show ?thesis
  proof (elim disjE conjE exE)
    assume "\<forall>k<nat \<lceil>mx / step\<rceil>. \<not> land_geom (ray_test_point p deg (of_nat (Suc k) * step))"
    then show ?thesis using pos l0 by blast
  next
    fix k
    assume k: "ray_march step p deg land_geom mx = of_nat (Suc k) * step / 1000"
      "\<forall>j<k. \<not> land_geom (ray_test_point p deg (of_nat (Suc j) * step))"
    then have "k = 0" using l0 by (cases k) auto
    then show ?thesis using k by simp
  qed
qed

lemma ray_march_open:
  assumes "step \<noteq> 0"
    and "\<And>k. k < nat \<lceil>mx / step\<rceil> \<Longrightarrow> \<not> land_geom (ray_test_point p deg (of_nat (Suc k) * step))"
  shows "ray_march step p deg land_geom mx = mx / 1000"
  using ray_march_cases[OF assms(1), of p deg land_geom mx] assms(2) by blast

lemma ray_march_second:
  assumes "0 < step" and "step < mx" and "\<not> land_geom (ray_test_point p deg step)"
    and "land_geom (ray_test_point p deg (2 * step))"
  shows "ray_march step p deg land_geom mx = 2 * step / 1000"
proof -
  have s: "step \<noteq> 0" using assms by simp
  have "1 < mx / step" using assms by simp
  then have "1 < \<lceil>mx / step\<rceil>" by linarith
  then have pos: "1 < nat \<lceil>mx / step\<rceil>" by simp
  have l0: "\<not> land_geom (ray_test_point p deg (of_nat (Suc 0) * step))" using assms(3) by simp
  have l1: "land_geom (ray_test_point p deg (of_nat (Suc 1) * step))" using assms(4) by simp
  from ray_march_cases[OF s, of p deg land_geom mx] show ?thesis
  proof (elim disjE conjE exE)
    assume "\<forall>k<nat \<lceil>mx / step\<rceil>. \<not> land_geom (ray_test_point p deg (of_nat (Suc k) * step))"
    then show ?thesis using pos l1 by blast
  next
    fix k
    assume k: "ray_march step p deg land_geom mx = of_nat (Suc k) * step / 1000"
      "land_geom (ray_test_point p deg (of_nat (Suc k) * step))"
      "\<forall>j<k. \<not> land_geom (ray_test_point p deg (of_nat (Suc j) * step))"
    have "k \<noteq> 0" using k(2) l0 by (cases k) auto
    moreover have "\<not> 1 < k" using k(3) l1 by auto
    ultimately have "k = 1" by simp
    then show ?thesis using k(1) by simp
  qed
qed

lemma np_median_replicate: "0 < n \<Longrightarrow> np_median (replicate n x) = x"
proof -
  assume n: "0 < n"
  have "sort (replicate n x) = replicate n x"
    by (intro sorted_sort_id) (simp add: sorted_replicate)
  moreover have "n div 2 < n" "n div 2 - 1 < n" using n by auto
  ultimately show ?thesis using n by (simp add: np_median_def Let_def)
qed

lemma np_median_mset: "mset xs = mset ys \<Longrightarrow> np_median xs = np_median ys"
proof -
  assume "mset xs = mset ys"
  then have "sort xs = sort ys"
    by (metis sorted_list_of_multiset_mset)
  then show ?thesis by (simp add: np_median_def)
qed

lemma map_const_replicate: "(\<And>x. x \<in> set xs \<Longrightarrow> f x = c) \<Longrightarrow> map f xs = replicate (length xs) c"
  by (induction xs) auto

lemma np_mean_replicate: "0 < n \<Longrightarrow> np_mean (replicate n x) = x"
  by (simp add: np_mean_def sum_list_replicate)


subsection \<open>The log-fetch score\<close>

lemma fetch_distances_all_land:
  "fetch_distances pts deg all_land = replicate (length pts) (1 / 10)"
proof -
  have "compute_fetch_distance p deg all_land (MAX_FETCH_KM * 1000) = 1 / 10" for p
    unfolding compute_fetch_distance_def
    by (subst ray_march_first) (simp_all add: RAY_STEP_M_v1_def MAX_FETCH_KM_def all_land_def)
  then show ?thesis
    unfolding fetch_distances_def by (intro map_const_replicate) simp
qed

lemma median_all_land:
  "np_median (fetch_distances (sample_route_points wgs a b SAMPLE_POINTS_PER_ROUTE_v1) deg all_land)
    = 1 / 10"
  by (simp add: fetch_distances_all_land sample_route_points_length
      SAMPLE_POINTS_PER_ROUTE_v1_def np_median_replicate)

text \<open>
  C6, amended. The normalisation computes \<open>clamp01 (ln (d + 1) / ln (maxFetch + 1))\<close> from the
  unrounded median fetch \<open>d\<close>, and the score stored for a direction is that value rounded
  to 3 decimals. Both the stored score and the unrounded value are 0 at distance 0, 1 at
  distance \<open>maxFetch\<close>, and monotonically non-decreasing on \<open>0 \<le> d1 \<le> d2\<close>.
\<close>

theorem log_fetch_score_model:
  "(\<forall>(dir_name, degrees) \<in> set COMPASS_DIRECTIONS.
      map_of (exposure_by_dir (route_exposure wgs land_geom rid os ds a b)) dir_name =
        Some (py_round (max 0 (min 1
          (ln (np_median (fetch_distances
                 (sample_route_points wgs a b SAMPLE_POINTS_PER_ROUTE_v1) degrees land_geom) + 1)
            / ln (MAX_FETCH_KM + 1)))) 3))
   \<and> py_round (log_fetch_exposure 0) 3 = 0
   \<and> py_round (log_fetch_exposure MAX_FETCH_KM) 3 = 1
   \<and> (\<forall>d1 d2. 0 \<le> d1 \<and> d1 \<le> d2 \<longrightarrow>
         py_round (log_fetch_exposure d1) 3 \<le> py_round (log_fetch_exposure d2) 3)
   \<and> log_fetch_exposure 0 = 0
   \<and> log_fetch_exposure MAX_FETCH_KM = 1
   \<and> (\<forall>d1 d2. 0 \<le> d1 \<and> d1 \<le> d2 \<longrightarrow> log_fetch_exposure d1 \<le> log_fetch_exposure d2)"
proof (intro conjI)
  show "\<forall>(dir_name, degrees) \<in> set COMPASS_DIRECTIONS.
      map_of (exposure_by_dir (route_exposure wgs land_geom rid os ds a b)) dir_name =
        Some (py_round (max 0 (min 1
          (ln (np_median (fetch_distances
                 (sample_route_points wgs a b SAMPLE_POINTS_PER_ROUTE_v1) degrees land_geom) + 1)
            / ln (MAX_FETCH_KM + 1)))) 3)"
  proof (intro ballI, clarify)
    fix dir_name degrees
    assume "(dir_name, degrees) \<in> set COMPASS_DIRECTIONS"
    from map_of_map_values[OF compass_distinct this]
    show "map_of (exposure_by_dir (route_exposure wgs land_geom rid os ds a b)) dir_name =
        Some (py_round (max 0 (min 1
          (ln (np_median (fetch_distances
                 (sample_route_points wgs a b SAMPLE_POINTS_PER_ROUTE_v1) degrees land_geom) + 1)
            / ln (MAX_FETCH_KM + 1)))) 3)"
      unfolding exposure_by_dir_eq by (simp add: log_fetch_exposure_def)
  qed
  show "py_round (log_fetch_exposure 0) 3 = 0"
    by (simp only: log_fetch_exposure_0 py_round_0)
  show "py_round (log_fetch_exposure MAX_FETCH_KM) 3 = 1"
    by (simp only: log_fetch_exposure_max py_round_1)
  show "\<forall>d1 d2. 0 \<le> d1 \<and> d1 \<le> d2 \<longrightarrow>
         py_round (log_fetch_exposure d1) 3 \<le> py_round (log_fetch_exposure d2) 3"
    by (blast intro: py_round_mono log_fetch_exposure_mono)
  show "log_fetch_exposure 0 = 0" by (rule log_fetch_exposure_0)
  show "log_fetch_exposure MAX_FETCH_KM = 1" by (rule log_fetch_exposure_max)
  show "\<forall>d1 d2. 0 \<le> d1 \<and> d1 \<le> d2 \<longrightarrow> log_fetch_exposure d1 \<le> log_fetch_exposure d2"
    by (blast intro: log_fetch_exposure_mono)
qed

lemma compass_N: "(''N'', 0) \<in> set COMPASS_DIRECTIONS"
  by (simp add: COMPASS_DIRECTIONS_def)

theorem log_fetch_score_model_witness:
  "map_of (exposure_by_dir
      (route_exposure plane all_land ''wh-vh-ssa'' ''woods-hole'' ''vineyard-haven''
         woods_hole vineyard_haven)) ''N''
     = Some (py_round (max 0 (min 1 (ln (1 / 10 + 1) / ln (MAX_FETCH_KM + 1)))) 3)
   \<and> py_round (log_fetch_exposure 0) 3 \<le> py_round (log_fetch_exposure 50) 3"
proof -
  note m = log_fetch_score_model[of plane all_land "''wh-vh-ssa''" "''woods-hole''"
      "''vineyard-haven''" woods_hole vineyard_haven]
  from m compass_N have "map_of (exposure_by_dir
      (route_exposure plane all_land ''wh-vh-ssa'' ''woods-hole'' ''vineyard-haven''
         woods_hole vineyard_haven)) ''N''
     = Some (py_round (max 0 (min 1 (ln (np_median (fetch_distances
         (sample_route_points plane woods_hole vineyard_haven SAMPLE_POINTS_PER_ROUTE_v1)
           0 all_land) + 1) / ln (MAX_FETCH_KM + 1)))) 3)"
    by fast
  moreover from m have "0 \<le> (0::real) \<and> (0::real) \<le> 50 \<longrightarrow>
      py_round (log_fetch_exposure 0) 3 \<le> py_round (log_fetch_exposure 50) 3"
    by blast
  ultimately show ?thesis
    by (simp add: median_all_land)
qed

text \<open>
  C6 as stated does not hold of the stored score: with land everywhere every ray stops at
  the first step, the median fetch is 0.1 km, and the score stored for N is the rounding
  of \<open>ln 1.1 / ln 51\<close> to 3 decimals, which is not that number.
\<close>

theorem stored_exposure_is_rounded:
  "np_median (fetch_distances
      (sample_route_points plane woods_hole vineyard_haven SAMPLE_POINTS_PER_ROUTE_v1) 0 all_land)
     = 1 / 10
   \<and> map_of (exposure_by_dir
      (route_exposure plane all_land ''wh-vh-ssa'' ''woods-hole'' ''vineyard-haven''
         woods_hole vineyard_haven)) ''N''
     \<noteq> Some (max 0 (min 1 (ln (1 / 10 + 1) / ln (50 + 1))))"
proof -
  let ?v = "ln (11 / 10) / ln (51::real)"
  have v: "0 \<le> ?v" "?v \<le> 1" by simp_all
  have lfe: "log_fetch_exposure (1 / 10) = ?v"
    using v by (simp add: log_fetch_exposure_def MAX_FETCH_KM_def)
  obtain k :: int where k: "py_round ?v 3 = of_int k / 10 ^ 3"
    using py_round_grid by blast
  have nf: "?v \<noteq> of_int k / of_nat 1000"
    by (rule ln_ratio_not_fraction) simp
  have "py_round ?v 3 = of_int k / of_nat 1000"
    using k by simp
  then have "py_round ?v 3 \<noteq> ?v"
    using nf by metis
  moreover have "map_of (exposure_by_dir
      (route_exposure plane all_land ''wh-vh-ssa'' ''woods-hole'' ''vineyard-haven''
         woods_hole vineyard_haven)) ''N'' = Some (py_round ?v 3)"
    using map_of_map_values[OF compass_distinct compass_N]
    unfolding exposure_by_dir_eq by (simp add: median_all_land lfe)
  ultimately show ?thesis
    using v by (simp add: median_all_land)
qed

subsection \<open>Shape and range of a signature\<close>

lemma shelter_ratio_count:
  "shelter_ratio ds = 1 - of_nat (length (filter (\<lambda>x. x \<le> SHELTER_THRESHOLD_KM) ds))
      / of_nat (length ds)"
  by (simp add: shelter_ratio_def Let_def filter_map comp_def is_sheltered_def)

lemma shelter_ratio_unit: "0 \<le> shelter_ratio ds \<and> shelter_ratio ds \<le> 1"
proof -
  have "length (filter (\<lambda>x. x \<le> SHELTER_THRESHOLD_KM) ds) \<le> length ds" by simp
  then have "real (length (filter (\<lambda>x. x \<le> SHELTER_THRESHOLD_KM) ds)) / real (length ds) \<le> 1"
    by (simp add: divide_le_eq_1)
  then show ?thesis
    unfolding shelter_ratio_count by simp
qed

lemma intersection_distances_length:
  "length (intersection_distances
      (sample_route_points wgs a b SAMPLE_POINTS_PER_ROUTE_v2) deg land_geom) = 50"
  by (simp add: intersection_distances_def sample_route_points_length
      SAMPLE_POINTS_PER_ROUTE_v2_def)

lemma shelter_ratio_50_exact:
  assumes "length ds = 50"
  shows "py_round (shelter_ratio ds) 3 = shelter_ratio ds"
proof -
  let ?k = "length (filter (\<lambda>x. x \<le> SHELTER_THRESHOLD_KM) ds)"
  have "shelter_ratio ds * 10 ^ 3 = of_int (1000 - 20 * int ?k)"
    unfolding shelter_ratio_count assms by (simp add: field_simps)
  then show ?thesis by (rule py_round_exact)
qed

lemma entries_of_map:
  "map fst (map (\<lambda>(k, v). (k, f v)) xs) = map fst xs"
  by (induction xs) auto

lemma scores_in_unit:
  assumes "\<And>v. 0 \<le> f v \<and> f v \<le> (1::real)"
  shows "\<forall>(d, s) \<in> set (map (\<lambda>(k, v). (k, f v)) xs). 0 \<le> s \<and> s \<le> 1"
  using assms by auto

lemma v1_entries:
  "map fst (exposure_by_dir (route_exposure wgs land_geom rid os ds a b)) =
     map fst COMPASS_DIRECTIONS
   \<and> (\<forall>(d, s) \<in> set (exposure_by_dir (route_exposure wgs land_geom rid os ds a b)).
        0 \<le> s \<and> s \<le> 1)"
  unfolding exposure_by_dir_eq
  by (intro conjI entries_of_map scores_in_unit py_round_unit)
    (simp_all add: log_fetch_exposure_unit)

lemma v2_entries:
  "map fst (shelter_ratio_by_dir (shelter_signature_of wgs land_geom rid os ds a b)) =
     map fst COMPASS_DIRECTIONS
   \<and> (\<forall>(d, s) \<in> set (shelter_ratio_by_dir (shelter_signature_of wgs land_geom rid os ds a b)).
        0 \<le> s \<and> s \<le> 1)"
  unfolding shelter_ratio_by_dir_eq
  by (intro conjI entries_of_map scores_in_unit py_round_unit)
    (simp_all add: shelter_ratio_unit)

lemma compute_route_exposure_Inr:
  "compute_route_exposure wgs ports land_geom rid os ds = Inr sig \<Longrightarrow>
    \<exists>a b. sig = route_exposure wgs land_geom rid os ds a b"
  by (auto simp: compute_route_exposure_def split: option.splits)

lemma compute_shelter_signature_Inr:
  "compute_shelter_signature wgs ports land_geom rid os ds = Inr sig \<Longrightarrow>
    \<exists>a b. sig = shelter_signature_of wgs land_geom rid os ds a b"
  by (auto simp: compute_shelter_signature_def split: option.splits)

text \<open>
  C8. Every signature that \<^verbatim>\<open>compute_route_exposure\<close> (v1) or \<^verbatim>\<open>compute_shelter_signature\<close>
  (v2) returns has exactly 16 per-direction scores, keyed by the 16 compass directions in
  their enumeration order with no duplicate and no omission, and every score lies in
  \<open>[0, 1]\<close>.
\<close>

theorem signature_sixteen_scores_in_unit:
  "(\<forall>sig. compute_route_exposure wgs ports land_geom rid os ds = Inr sig \<longrightarrow>
      length (exposure_by_dir sig) = 16
    \<and> map fst (exposure_by_dir sig) = map fst COMPASS_DIRECTIONS
    \<and> distinct (map fst (exposure_by_dir sig))
    \<and> (\<forall>(d, s) \<in> set (exposure_by_dir sig). 0 \<le> s \<and> s \<le> 1))
   \<and> (\<forall>sig. compute_shelter_signature wgs ports land_geom rid os ds = Inr sig \<longrightarrow>
      length (shelter_ratio_by_dir sig) = 16
    \<and> map fst (shelter_ratio_by_dir sig) = map fst COMPASS_DIRECTIONS
    \<and> distinct (map fst (shelter_ratio_by_dir sig))
    \<and> (\<forall>(d, s) \<in> set (shelter_ratio_by_dir sig). 0 \<le> s \<and> s \<le> 1))"
proof (intro conjI allI impI)
  fix sig
  assume "compute_route_exposure wgs ports land_geom rid os ds = Inr sig"
  then obtain a b where sig: "sig = route_exposure wgs land_geom rid os ds a b"
    using compute_route_exposure_Inr by blast
  have k: "map fst (exposure_by_dir sig) = map fst COMPASS_DIRECTIONS"
    unfolding sig using v1_entries by blast
  show "map fst (exposure_by_dir sig) = map fst COMPASS_DIRECTIONS" by (rule k)
  show "distinct (map fst (exposure_by_dir sig))"
    unfolding k by (rule compass_distinct)
  have "length (map fst (exposure_by_dir sig)) = 16"
    unfolding k by (simp add: compass_length)
  then show "length (exposure_by_dir sig) = 16" by simp
  show "\<forall>(d, s) \<in> set (exposure_by_dir sig). 0 \<le> s \<and> s \<le> 1"
    unfolding sig using v1_entries by blast
next
  fix sig
  assume "compute_shelter_signature wgs ports land_geom rid os ds = Inr sig"
  then obtain a b where sig: "sig = shelter_signature_of wgs land_geom rid os ds a b"
    using compute_shelter_signature_Inr by blast
  have k: "map fst (shelter_ratio_by_dir sig) = map fst COMPASS_DIRECTIONS"
    unfolding sig using v2_entries by blast
  show "map fst (shelter_ratio_by_dir sig) = map fst COMPASS_DIRECTIONS" by (rule k)
  show "distinct (map fst (shelter_ratio_by_dir sig))"
    unfolding k by (rule compass_distinct)
  have "length (map fst (shelter_ratio_by_dir sig)) = 16"
    unfolding k by (simp add: compass_length)
  then show "length (shelter_ratio_by_dir sig) = 16" by simp
  show "\<forall>(d, s) \<in> set (shelter_ratio_by_dir sig). 0 \<le> s \<and> s \<le> 1"
    unfolding sig using v2_entries by blast
qed

lemma map_of_PORTS_wh: "map_of PORTS ''woods-hole'' = Some woods_hole"
  by (simp add: PORTS_def woods_hole_def)

lemma map_of_PORTS_vh: "map_of PORTS ''vineyard-haven'' = Some vineyard_haven"
  by (simp add: PORTS_def vineyard_haven_def)

lemma compute_wh_vh_v1:
  "compute_route_exposure wgs PORTS land_geom rid ''woods-hole'' ''vineyard-haven'' =
    Inr (route_exposure wgs land_geom rid ''woods-hole'' ''vineyard-haven''
          woods_hole vineyard_haven)"
  by (simp add: compute_route_exposure_def map_of_PORTS_wh map_of_PORTS_vh)

lemma compute_wh_vh_v2:
  "compute_shelter_signature wgs PORTS land_geom rid ''woods-hole'' ''vineyard-haven'' =
    Inr (shelter_signature_of wgs land_geom rid ''woods-hole'' ''vineyard-haven''
          woods_hole vineyard_haven)"
  by (simp add: compute_shelter_signature_def map_of_PORTS_wh map_of_PORTS_vh)

theorem signature_sixteen_scores_witness:
  "length (exposure_by_dir (route_exposure plane all_land ''wh-vh-ssa'' ''woods-hole''
      ''vineyard-haven'' woods_hole vineyard_haven)) = 16
   \<and> length (shelter_ratio_by_dir (shelter_signature_of plane all_land ''wh-vh-ssa''
      ''woods-hole'' ''vineyard-haven'' woods_hole vineyard_haven)) = 16"
  using signature_sixteen_scores_in_unit[of plane PORTS all_land "''wh-vh-ssa''"
      "''woods-hole''" "''vineyard-haven''"]
  by (simp add: compute_wh_vh_v1 compute_wh_vh_v2)

subsection \<open>The threshold-shelter score\<close>

lemma effective_fetch_eq:
  "effective_fetch ds = np_median (map (\<lambda>d. min d MAX_RAY_KM) ds)"
  by (simp add: effective_fetch_def)

text \<open>
  C7, amended. For each direction the v2 computer classifies a sample point as sheltered
  exactly when its raw distance is \<open>\<le>\<close> the shelter threshold, and the direction's score is
  \<open>1 - sheltered_count / sample_count\<close> (with the 50 sample points of the script the
  rounding to 3 decimals leaves it unchanged): 0 when every raw distance is \<open>\<le>\<close> the
  threshold, 1 when none is. The representative distance reported alongside is the median
  of the range-capped raw measurements rounded to 2 decimals, whatever the classification:
  a multiple of 0.01 that is at most 0.005 away from that median (when the median lies
  halfway between two multiples, either may be stored).
\<close>

theorem threshold_shelter_model:
  "\<forall>(dir_name, degrees) \<in> set COMPASS_DIRECTIONS.
     (let sig = shelter_signature_of wgs land_geom rid os ds a b;
          raw = intersection_distances
                  (sample_route_points wgs a b SAMPLE_POINTS_PER_ROUTE_v2) degrees land_geom;
          sheltered_count = length (filter (\<lambda>x. x \<le> SHELTER_THRESHOLD_KM) raw)
      in length raw = 50
       \<and> map_of (shelter_ratio_by_dir sig) dir_name =
           Some (1 - of_nat sheltered_count / of_nat (length raw))
       \<and> ((\<forall>x \<in> set raw. x \<le> SHELTER_THRESHOLD_KM) \<longrightarrow>
            map_of (shelter_ratio_by_dir sig) dir_name = Some 0)
       \<and> ((\<forall>x \<in> set raw. \<not> x \<le> SHELTER_THRESHOLD_KM) \<longrightarrow>
            map_of (shelter_ratio_by_dir sig) dir_name = Some 1)
       \<and> (\<exists>k::int. map_of (effective_open_fetch_km_by_dir sig) dir_name =
              Some (of_int k / 100)
            \<and> \<bar>of_int k / 100 - np_median (map (\<lambda>d. min d MAX_RAY_KM) raw)\<bar> \<le> 1 / 200))"
proof (intro ballI, clarify)
  fix dir_name degrees
  assume dir: "(dir_name, degrees) \<in> set COMPASS_DIRECTIONS"
  define raw where "raw = intersection_distances
      (sample_route_points wgs a b SAMPLE_POINTS_PER_ROUTE_v2) degrees land_geom"
  define sig where "sig = shelter_signature_of wgs land_geom rid os ds a b"
  have len: "length raw = 50"
    unfolding raw_def by (rule intersection_distances_length)
  have score: "map_of (shelter_ratio_by_dir sig) dir_name = Some (shelter_ratio raw)"
    using map_of_map_values[OF compass_distinct dir,
        of "\<lambda>degrees. py_round (shelter_ratio (intersection_distances
            (sample_route_points wgs a b SAMPLE_POINTS_PER_ROUTE_v2) degrees land_geom)) 3"]
    unfolding sig_def shelter_ratio_by_dir_eq raw_def
    by (simp add: shelter_ratio_50_exact intersection_distances_length)
  have fetch: "map_of (effective_open_fetch_km_by_dir sig) dir_name =
      Some (py_round (np_median (map (\<lambda>d. min d MAX_RAY_KM) raw)) 2)"
    using map_of_map_values[OF compass_distinct dir,
        of "\<lambda>degrees. py_round (effective_fetch (intersection_distances
            (sample_route_points wgs a b SAMPLE_POINTS_PER_ROUTE_v2) degrees land_geom)) 2"]
    unfolding sig_def effective_fetch_by_dir_eq raw_def
    by (simp add: effective_fetch_eq)
  have near: "\<exists>k::int. map_of (effective_open_fetch_km_by_dir sig) dir_name =
        Some (of_int k / 100)
      \<and> \<bar>of_int k / 100 - np_median (map (\<lambda>d. min d MAX_RAY_KM) raw)\<bar> \<le> 1 / 200"
    using py_round_near[of "np_median (map (\<lambda>d. min d MAX_RAY_KM) raw)" 2]
    unfolding fetch by auto
  have all: "shelter_ratio raw = 0" if "\<forall>x \<in> set raw. x \<le> SHELTER_THRESHOLD_KM"
  proof -
    from that have "filter (\<lambda>x. x \<le> SHELTER_THRESHOLD_KM) raw = raw" by simp
    then show ?thesis unfolding shelter_ratio_count using len by simp
  qed
  have none: "shelter_ratio raw = 1" if "\<forall>x \<in> set raw. \<not> x \<le> SHELTER_THRESHOLD_KM"
  proof -
    from that have "filter (\<lambda>x. x \<le> SHELTER_THRESHOLD_KM) raw = []" by simp
    then show ?thesis unfolding shelter_ratio_count by simp
  qed
  show "let sig = shelter_signature_of wgs land_geom rid os ds a b;
          raw = intersection_distances
                  (sample_route_points wgs a b SAMPLE_POINTS_PER_ROUTE_v2) degrees land_geom;
          sheltered_count = length (filter (\<lambda>x. x \<le> SHELTER_THRESHOLD_KM) raw)
      in length raw = 50
       \<and> map_of (shelter_ratio_by_dir sig) dir_name =
           Some (1 - of_nat sheltered_count / of_nat (length raw))
       \<and> ((\<forall>x \<in> set raw. x \<le> SHELTER_THRESHOLD_KM) \<longrightarrow>
            map_of (shelter_ratio_by_dir sig) dir_name = Some 0)
       \<and> ((\<forall>x \<in> set raw. \<not> x \<le> SHELTER_THRESHOLD_KM) \<longrightarrow>
            map_of (shelter_ratio_by_dir sig) dir_name = Some 1)
       \<and> (\<exists>k::int. map_of (effective_open_fetch_km_by_dir sig) dir_name =
              Some (of_int k / 100)
            \<and> \<bar>of_int k / 100 - np_median (map (\<lambda>d. min d MAX_RAY_KM) raw)\<bar> \<le> 1 / 200)"
    unfolding Let_def raw_def[symmetric] sig_def[symmetric]
    using len score near all none by (simp add: shelter_ratio_count)
qed



lemma ray_test_point_north: "ray_test_point (x, y) 0 d = (x, y + d)"
  by (simp add: ray_test_point_def radians_0)

lemma sample_points_south_north:
  "sample_route_points scaled port_south port_north SAMPLE_POINTS_PER_ROUTE_v2 =
    map (\<lambda>i. (0, 2 * of_int i + 1)) (py_range 50)"
  by (simp add: sample_route_points_def scaled_def port_south_def port_north_def
      SAMPLE_POINTS_PER_ROUTE_v2_def field_simps)

lemma cast_north_shore:
  assumes "0 \<le> y" "y < 100"
  shows "cast_ray_to_land (0, y) 0 shore (MAX_RAY_KM * 1000) =
          (if y < 50 then 1 / 10 else 1 / 20)"
proof (cases "y < 50")
  case True
  have "ray_march 50 (0, y) 0 shore 30000 = 2 * 50 / 1000"
    using True assms by (intro ray_march_second) (simp_all add: ray_test_point_north shore_def)
  then show ?thesis
    using True by (simp add: cast_ray_to_land_def RAY_STEP_M_v2_def MAX_RAY_KM_def)
next
  case False
  have "ray_march 50 (0, y) 0 shore 30000 = 50 / 1000"
    using False assms by (intro ray_march_first) (simp_all add: ray_test_point_north shore_def)
  then show ?thesis
    using False by (simp add: cast_ray_to_land_def RAY_STEP_M_v2_def MAX_RAY_KM_def)
qed

lemma py_range_50_split: "py_range 50 = [0..24] @ [25..49]"
  unfolding py_range_def using upto_split1[of 0 25 49] by simp

lemma raw_north_shore:
  "intersection_distances
     (sample_route_points scaled port_south port_north SAMPLE_POINTS_PER_ROUTE_v2) 0 shore =
    replicate 25 (1 / 10) @ replicate 25 (1 / 20)"
proof -
  have c: "cast_ray_to_land (0, 2 * of_int i + 1) 0 shore (MAX_RAY_KM * 1000) =
      (if i < 25 then 1 / 10 else 1 / 20)" if "0 \<le> i" "i \<le> 49" for i :: int
  proof -
    have "(0::real) \<le> 2 * of_int i + 1" "(2 * of_int i + 1 :: real) < 100"
      using that by simp_all
    moreover have "(2 * of_int i + 1 :: real) < 50 \<longleftrightarrow> i < 25"
    proof -
      have "(2 * of_int i + 1 :: real) < 50 \<longleftrightarrow> (of_int (2 * i + 1) :: real) < of_int 50"
        by simp
      also have "\<dots> \<longleftrightarrow> 2 * i + 1 < 50" by (simp only: of_int_less_iff)
      also have "\<dots> \<longleftrightarrow> i < 25" by auto
      finally show ?thesis .
    qed
    ultimately show ?thesis
      using cast_north_shore[of "2 * of_int i + 1"] by simp
  qed
  have a: "map (\<lambda>i::int. cast_ray_to_land (0, 2 * of_int i + 1) 0 shore (MAX_RAY_KM * 1000))
      [0..24] = replicate (length [0..24::int]) (1 / 10)"
  proof (intro map_const_replicate)
    fix i :: int
    assume "i \<in> set [0..24]"
    then have "0 \<le> i" "i \<le> 24" by (simp_all only: set_upto atLeastAtMost_iff)
    then show "cast_ray_to_land (0, 2 * of_int i + 1) 0 shore (MAX_RAY_KM * 1000) = 1 / 10"
      using c[of i] by simp
  qed
  have b: "map (\<lambda>i::int. cast_ray_to_land (0, 2 * of_int i + 1) 0 shore (MAX_RAY_KM * 1000))
      [25..49] = replicate (length [25..49::int]) (1 / 20)"
  proof (intro map_const_replicate)
    fix i :: int
    assume "i \<in> set [25..49]"
    then have "25 \<le> i" "i \<le> 49" by (simp_all only: set_upto atLeastAtMost_iff)
    then show "cast_ray_to_land (0, 2 * of_int i + 1) 0 shore (MAX_RAY_KM * 1000) = 1 / 20"
      using c[of i] by simp
  qed
  have la: "length [0..24::int] = 25" and lb: "length [25..49::int] = 25"
    by simp_all
  have "intersection_distances
     (sample_route_points scaled port_south port_north SAMPLE_POINTS_PER_ROUTE_v2) 0 shore =
    map (\<lambda>p. cast_ray_to_land p 0 shore (MAX_RAY_KM * 1000))
      (map (\<lambda>i. (0, 2 * of_int i + 1)) ([0..24] @ [25..49]))"
    by (simp only: intersection_distances_def sample_points_south_north py_range_50_split)
  also have "\<dots> =
      map (\<lambda>i::int. cast_ray_to_land (0, 2 * of_int i + 1) 0 shore (MAX_RAY_KM * 1000)) [0..24]
    @ map (\<lambda>i::int. cast_ray_to_land (0, 2 * of_int i + 1) 0 shore (MAX_RAY_KM * 1000)) [25..49]"
    by (simp only: map_map comp_def map_append)
  also have "\<dots> = replicate 25 (1 / 10) @ replicate 25 (1 / 20)"
    by (simp only: a b la lb)
  finally show ?thesis .
qed

lemma np_median_two_blocks:
  assumes "x \<le> y" and "0 < n"
  shows "np_median (replicate n y @ replicate n x) = (x + y) / 2"
proof -
  have "sort (replicate n y @ replicate n x) = replicate n x @ replicate n y"
    using assms(1) by (intro properties_for_sort) (simp_all add: sorted_append)
  moreover have "(replicate n x @ replicate n y) ! (n - 1) = x"
    using assms(2) by (simp add: nth_append)
  moreover have "(replicate n x @ replicate n y) ! n = y"
    using assms(2) by (simp add: nth_append)
  moreover have "(n + n) div 2 = n" by simp
  ultimately show ?thesis
    using assms(2) by (simp add: np_median_def Let_def)
qed

lemma median_north_shore:
  "np_median (map (\<lambda>d. min d MAX_RAY_KM) (intersection_distances
     (sample_route_points scaled port_south port_north SAMPLE_POINTS_PER_ROUTE_v2) 0 shore))
    = 3 / 40"
  unfolding raw_north_shore
  using np_median_two_blocks[of "1 / 20" "1 / 10" 25]
  by (simp add: MAX_RAY_KM_def)

lemma py_round_3_40: "py_round (3 / 40) 2 = 2 / 25"
proof -
  have "\<lfloor>15 / 2 :: real\<rfloor> = 7" by (simp add: floor_eq_iff)
  then show ?thesis
    by (simp add: py_round_def round_half_even_def)
qed

theorem threshold_shelter_model_witness:
  "map_of (shelter_ratio_by_dir (shelter_signature_of scaled shore ''s-n'' ''south'' ''north''
      port_south port_north)) ''N'' = Some 0
   \<and> (map_of (effective_open_fetch_km_by_dir (shelter_signature_of scaled shore ''s-n''
      ''south'' ''north'' port_south port_north)) ''N'' = Some (7 / 100)
     \<or> map_of (effective_open_fetch_km_by_dir (shelter_signature_of scaled shore ''s-n''
      ''south'' ''north'' port_south port_north)) ''N'' = Some (8 / 100))"
proof -
  let ?sig = "shelter_signature_of scaled shore ''s-n'' ''south'' ''north''
      port_south port_north"
  let ?raw = "intersection_distances
      (sample_route_points scaled port_south port_north SAMPLE_POINTS_PER_ROUTE_v2) 0 shore"
  note m = threshold_shelter_model[of scaled shore "''s-n''" "''south''" "''north''"
      port_south port_north]
  from m compass_N
  have a: "(\<forall>x \<in> set ?raw. x \<le> SHELTER_THRESHOLD_KM) \<longrightarrow>
        map_of (shelter_ratio_by_dir ?sig) ''N'' = Some 0"
    and b: "\<exists>k::int. map_of (effective_open_fetch_km_by_dir ?sig) ''N'' = Some (of_int k / 100)
        \<and> \<bar>of_int k / 100 - np_median (map (\<lambda>d. min d MAX_RAY_KM) ?raw)\<bar> \<le> 1 / 200"
    unfolding Let_def by fast+
  have "\<forall>x \<in> set ?raw. x \<le> SHELTER_THRESHOLD_KM"
    unfolding raw_north_shore by (auto simp: SHELTER_THRESHOLD_KM_def)
  with a have score: "map_of (shelter_ratio_by_dir ?sig) ''N'' = Some 0" by blast
  from b obtain k :: int
    where k: "map_of (effective_open_fetch_km_by_dir ?sig) ''N'' = Some (of_int k / 100)"
      and n: "\<bar>of_int k / 100 - (3 / 40 :: real)\<bar> \<le> 1 / 200"
    unfolding median_north_shore by blast
  from n have "(7::real) \<le> of_int k" "(of_int k :: real) \<le> 8"
    by (simp_all add: abs_le_iff field_simps)
  then have "7 \<le> k" "k \<le> 8" by linarith+
  then have "k = 7 \<or> k = 8" by linarith
  then show ?thesis using score k by auto
qed

text \<open>
  C7 as stated does not hold of the reported distance: on the route from \<open>(0, 0)\<close> to
  \<open>(0, 100)\<close> with land from \<open>y = 100\<close> northwards, the northward rays of the first 25
  sample points stop at 0.1 km and those of the last 25 at 0.05 km; the median is 0.075 km
  and the distance reported for N is 0.08 km.
\<close>

theorem reported_fetch_is_rounded:
  "np_median (map (\<lambda>d. min d MAX_RAY_KM) (intersection_distances
     (sample_route_points scaled port_south port_north SAMPLE_POINTS_PER_ROUTE_v2) 0 shore))
    = 3 / 40
   \<and> map_of (effective_open_fetch_km_by_dir (shelter_signature_of scaled shore ''s-n''
      ''south'' ''north'' port_south port_north)) ''N'' = Some (2 / 25)
   \<and> (2 / 25 :: real) \<noteq> 3 / 40"
proof -
  have "map_of (effective_open_fetch_km_by_dir (shelter_signature_of scaled shore ''s-n''
      ''south'' ''north'' port_south port_north)) ''N'' = Some (2 / 25)"
    using map_of_map_values[OF compass_distinct compass_N,
        of "\<lambda>degrees. py_round (effective_fetch (intersection_distances
            (sample_route_points scaled port_south port_north SAMPLE_POINTS_PER_ROUTE_v2)
               degrees shore)) 2"]
    unfolding effective_fetch_by_dir_eq
    by (simp add: effective_fetch_eq median_north_shore py_round_3_40)
  then show ?thesis
    by (simp add: median_north_shore)
qed

subsection \<open>Aggregate and top three\<close>

lemma precedes_filter:
  "P a \<Longrightarrow> P b \<Longrightarrow> precedes (filter P xs) a b = precedes xs a b"
  by (induction xs) auto

lemma precedes_nth:
  "distinct xs \<Longrightarrow> i < j \<Longrightarrow> j < length xs \<Longrightarrow> precedes xs (xs ! i) (xs ! j)"
proof (induction xs arbitrary: i j)
  case Nil
  then show ?case by simp
next
  case (Cons x xs)
  obtain j' where j: "j = Suc j'" using Cons.prems(2) by (cases j) auto
  show ?case
  proof (cases i)
    case 0
    then show ?thesis using Cons.prems j by simp
  next
    case (Suc i')
    then have "xs ! i' \<in> set xs" using Cons.prems j by simp
    then have "x \<noteq> xs ! i'" using Cons.prems(1) by auto
    moreover have "precedes xs (xs ! i') (xs ! j')"
      using Cons.IH[of i' j'] Cons.prems Suc j by simp
    ultimately show ?thesis using Suc j by simp
  qed
qed

lemma stable_sort_outranks:
  assumes "distinct items"
  shows "sorted_wrt (outranks items) (sorted_by_score_desc items)"
proof -
  let ?f = "\<lambda>x::'a \<times> real. - snd x"
  let ?L = "sort_key ?f items"
  have dL: "distinct ?L" using assms by simp
  have sL: "sorted (map ?f ?L)" by (rule sorted_sort_key)
  have "outranks items (?L ! i) (?L ! j)" if "i < j" "j < length ?L" for i j
  proof -
    define a where "a = ?L ! i"
    define b where "b = ?L ! j"
    have le: "?f a \<le> ?f b"
      unfolding a_def b_def using sorted_nth_mono[OF sL, of i j] that by simp
    have pr: "precedes ?L a b"
      unfolding a_def b_def using precedes_nth[OF dL that] .
    have "outranks items a b"
    proof (cases "snd a = snd b")
      case False
      then show ?thesis using le by (simp add: outranks_def)
    next
      case True
      define k where "k = ?f a"
      have ka: "?f a = k" and kb: "?f b = k" using True by (simp_all add: k_def)
      have "precedes (filter (\<lambda>y. ?f y = k) ?L) a b"
        using precedes_filter[of "\<lambda>y. ?f y = k" a b ?L, OF ka kb] pr by blast
      then have "precedes (filter (\<lambda>y. ?f y = k) items) a b"
        by (simp only: sort_key_stable)
      then have "precedes items a b"
        using precedes_filter[of "\<lambda>y. ?f y = k" a b items, OF ka kb] by blast
      then show ?thesis using True by (simp add: outranks_def)
    qed
    then show ?thesis by (simp only: a_def b_def)
  qed
  then show ?thesis
    unfolding sorted_by_score_desc_def sorted_wrt_iff_nth_less by blast
qed

lemma top_three_of_sorted:
  assumes "distinct items" and "3 \<le> length items"
  shows "top_three_of items (take 3 (sorted_by_score_desc items))"
proof -
  let ?L = "sorted_by_score_desc items"
  have set: "set ?L = set items" and len: "length ?L = length items"
    and dist: "distinct ?L"
    using assms(1) by (simp_all add: sorted_by_score_desc_def)
  have "sorted_wrt (outranks items) (take 3 ?L @ drop 3 ?L)"
    using stable_sort_outranks[OF assms(1)] by simp
  then have a: "sorted_wrt (outranks items) (take 3 ?L)"
    and b: "\<forall>x \<in> set (take 3 ?L). \<forall>y \<in> set (drop 3 ?L). outranks items x y"
    unfolding sorted_wrt_append by blast+
  have "set ?L = set (take 3 ?L) \<union> set (drop 3 ?L)"
    by (metis append_take_drop_id set_append)
  then have c: "set items - set (take 3 ?L) \<subseteq> set (drop 3 ?L)"
    using set by blast
  have d: "set (take 3 ?L) \<subseteq> set items"
    using set_take_subset[of 3 ?L] set by simp
  have e: "length (take 3 ?L) = 3"
    using assms(2) len by simp
  have f: "\<forall>x \<in> set (take 3 ?L). \<forall>y \<in> set items - set (take 3 ?L). outranks items x y"
    using b c by blast
  show ?thesis
    unfolding top_three_of_def using a d e f by blast
qed

lemma items_distinct: "distinct (map fst xs) \<Longrightarrow> distinct xs"
  by (simp add: distinct_map)

lemma sum_16: "length xs = 16 \<Longrightarrow> np_mean xs = sum_list xs / 16"
  by (simp add: np_mean_def)

lemma avg_exposure_eq:
  "avg_exposure (route_exposure wgs land_geom rid os ds a b) =
    py_round (np_mean (map snd (exposure_by_dir (route_exposure wgs land_geom rid os ds a b)))) 3"
  by (simp add: route_exposure_def Let_def comp_assoc)

lemma top_exposure_dirs_v1_eq:
  "top_exposure_dirs_v1 (route_exposure wgs land_geom rid os ds a b) =
    map fst (take 3 (sorted_by_score_desc
      (exposure_by_dir (route_exposure wgs land_geom rid os ds a b))))"
  by (simp add: route_exposure_def Let_def comp_assoc)

lemma mean_shelter_ratio_eq:
  "mean_shelter_ratio (shelter_signature_of wgs land_geom rid os ds a b) =
    py_round (np_mean (map snd
      (shelter_ratio_by_dir (shelter_signature_of wgs land_geom rid os ds a b)))) 3"
  by (simp add: shelter_signature_of_def Let_def comp_assoc)

lemma top_exposure_dirs_v2_eq:
  "top_exposure_dirs_v2 (shelter_signature_of wgs land_geom rid os ds a b) =
    map fst (take 3 (sorted_by_score_desc
      (shelter_ratio_by_dir (shelter_signature_of wgs land_geom rid os ds a b))))"
  by (simp add: shelter_signature_of_def Let_def comp_assoc)

lemma aggregate_top_of_items:
  assumes "map fst items = map fst COMPASS_DIRECTIONS"
  shows "np_mean (map snd items) = sum_list (map snd items) / 16
    \<and> top_three_of items (take 3 (sorted_by_score_desc items))"
proof -
  have "length (map fst items) = 16" unfolding assms by (simp add: compass_length)
  then have len: "length items = 16" by simp
  have "distinct (map fst items)" unfolding assms by (rule compass_distinct)
  then have "distinct items" by (rule items_distinct)
  then show ?thesis
    using len by (simp add: sum_16 top_three_of_sorted)
qed

text \<open>
  C9, amended. In every computed signature (v1 and v2) the aggregate score is the
  arithmetic mean of the 16 per-direction scores rounded to 3 decimals: a multiple of
  0.001 that is at most 0.0005 away from that mean (when the mean lies halfway between
  two multiples, either may be stored). The top-3 list names the 3 entries with the
  highest per-direction score, in descending order of score, ties broken by the
  enumeration order of the compass directions.
\<close>

theorem aggregate_and_top_three:
  "(\<forall>sig. compute_route_exposure wgs ports land_geom rid os ds = Inr sig \<longrightarrow>
      (\<exists>k::int. avg_exposure sig = of_int k / 1000
        \<and> \<bar>of_int k / 1000 - sum_list (map snd (exposure_by_dir sig)) / 16\<bar> \<le> 1 / 2000)
    \<and> (\<exists>tops. top_exposure_dirs_v1 sig = map fst tops
          \<and> top_three_of (exposure_by_dir sig) tops))
   \<and> (\<forall>sig. compute_shelter_signature wgs ports land_geom rid os ds = Inr sig \<longrightarrow>
      (\<exists>k::int. mean_shelter_ratio sig = of_int k / 1000
        \<and> \<bar>of_int k / 1000 - sum_list (map snd (shelter_ratio_by_dir sig)) / 16\<bar> \<le> 1 / 2000)
    \<and> (\<exists>tops. top_exposure_dirs_v2 sig = map fst tops
          \<and> top_three_of (shelter_ratio_by_dir sig) tops))"
proof (intro conjI allI impI)
  fix sig
  assume "compute_route_exposure wgs ports land_geom rid os ds = Inr sig"
  then obtain a b where sig: "sig = route_exposure wgs land_geom rid os ds a b"
    using compute_route_exposure_Inr by blast
  have k: "map fst (exposure_by_dir sig) = map fst COMPASS_DIRECTIONS"
    unfolding sig using v1_entries by blast
  note at = aggregate_top_of_items[OF k]
  have "avg_exposure sig = py_round (sum_list (map snd (exposure_by_dir sig)) / 16) 3"
    unfolding sig avg_exposure_eq using conjunct1[OF at[unfolded sig]] by (simp only:)
  then show "\<exists>k::int. avg_exposure sig = of_int k / 1000
        \<and> \<bar>of_int k / 1000 - sum_list (map snd (exposure_by_dir sig)) / 16\<bar> \<le> 1 / 2000"
    using py_round_near[of "sum_list (map snd (exposure_by_dir sig)) / 16" 3] by auto
  show "\<exists>tops. top_exposure_dirs_v1 sig = map fst tops
          \<and> top_three_of (exposure_by_dir sig) tops"
    using at unfolding sig top_exposure_dirs_v1_eq by blast
next
  fix sig
  assume "compute_shelter_signature wgs ports land_geom rid os ds = Inr sig"
  then obtain a b where sig: "sig = shelter_signature_of wgs land_geom rid os ds a b"
    using compute_shelter_signature_Inr by blast
  have k: "map fst (shelter_ratio_by_dir sig) = map fst COMPASS_DIRECTIONS"
    unfolding sig using v2_entries by blast
  note at = aggregate_top_of_items[OF k]
  have "mean_shelter_ratio sig =
      py_round (sum_list (map snd (shelter_ratio_by_dir sig)) / 16) 3"
    unfolding sig mean_shelter_ratio_eq using conjunct1[OF at[unfolded sig]] by (simp only:)
  then show "\<exists>k::int. mean_shelter_ratio sig = of_int k / 1000
        \<and> \<bar>of_int k / 1000 - sum_list (map snd (shelter_ratio_by_dir sig)) / 16\<bar> \<le> 1 / 2000"
    using py_round_near[of "sum_list (map snd (shelter_ratio_by_dir sig)) / 16" 3] by auto
  show "\<exists>tops. top_exposure_dirs_v2 sig = map fst tops
          \<and> top_three_of (shelter_ratio_by_dir sig) tops"
    using at unfolding sig top_exposure_dirs_v2_eq by blast
qed

lemma ray_march_open_water:
  "step \<noteq> 0 \<Longrightarrow> ray_march step p deg open_water mx = mx / 1000"
  by (rule ray_march_open) (simp_all add: open_water_def)

lemma fetch_distances_open_water:
  "fetch_distances pts deg open_water = replicate (length pts) 50"
  unfolding fetch_distances_def compute_fetch_distance_def
  by (intro map_const_replicate)
    (simp add: ray_march_open_water RAY_STEP_M_v1_def MAX_FETCH_KM_def)

lemma intersection_distances_open_water:
  "intersection_distances pts deg open_water = replicate (length pts) 30"
  unfolding intersection_distances_def cast_ray_to_land_def
  by (intro map_const_replicate)
    (simp add: ray_march_open_water RAY_STEP_M_v2_def MAX_RAY_KM_def)

lemma shelter_ratio_open: "0 < n \<Longrightarrow> shelter_ratio (replicate n 30) = 1"
  by (simp add: shelter_ratio_count SHELTER_THRESHOLD_KM_def)

lemma shelter_ratio_close: "0 < n \<Longrightarrow> shelter_ratio (replicate n (1 / 20)) = 0"
  by (simp add: shelter_ratio_count SHELTER_THRESHOLD_KM_def)

lemma exposure_by_dir_open_water:
  "exposure_by_dir (route_exposure wgs open_water rid os ds a b) =
    map (\<lambda>(dir_name, degrees). (dir_name, 1)) COMPASS_DIRECTIONS"
proof -
  have "log_fetch_exposure 50 = 1"
    using log_fetch_exposure_max by (simp add: MAX_FETCH_KM_def)
  then show ?thesis
    unfolding exposure_by_dir_eq
    by (simp add: fetch_distances_open_water sample_route_points_length
        SAMPLE_POINTS_PER_ROUTE_v1_def np_median_replicate py_round_1)
qed

lemma shelter_ratio_by_dir_open_water:
  "shelter_ratio_by_dir (shelter_signature_of wgs open_water rid os ds a b) =
    map (\<lambda>(dir_name, degrees). (dir_name, 1)) COMPASS_DIRECTIONS"
  unfolding shelter_ratio_by_dir_eq
  by (simp add: intersection_distances_open_water sample_route_points_length
      SAMPLE_POINTS_PER_ROUTE_v2_def shelter_ratio_open py_round_1)

lemma all_ones_scores:
  "sum_list (map snd (map (\<lambda>(dir_name, degrees). (dir_name, 1::real)) COMPASS_DIRECTIONS)) = 16"
  by (simp add: COMPASS_DIRECTIONS_def)

lemma all_ones_top:
  "map fst (take 3 (sorted_by_score_desc
      (map (\<lambda>(dir_name, degrees). (dir_name, 1::real)) COMPASS_DIRECTIONS))) =
    [''N'', ''NNE'', ''NE'']"
proof -
  have "sorted_by_score_desc (map (\<lambda>(dir_name, degrees). (dir_name, 1::real)) COMPASS_DIRECTIONS)
      = map (\<lambda>(dir_name, degrees). (dir_name, 1::real)) COMPASS_DIRECTIONS"
    unfolding sorted_by_score_desc_def
    by (rule sort_key_id_if_sorted) (simp add: COMPASS_DIRECTIONS_def)
  then show ?thesis
    by (simp add: COMPASS_DIRECTIONS_def)
qed

theorem aggregate_and_top_three_witness:
  "avg_exposure (route_exposure plane open_water ''wh-vh-ssa'' ''woods-hole''
      ''vineyard-haven'' woods_hole vineyard_haven) = 1
   \<and> top_exposure_dirs_v1 (route_exposure plane open_water ''wh-vh-ssa'' ''woods-hole''
      ''vineyard-haven'' woods_hole vineyard_haven) = [''N'', ''NNE'', ''NE'']
   \<and> mean_shelter_ratio (shelter_signature_of plane open_water ''wh-vh-ssa'' ''woods-hole''
      ''vineyard-haven'' woods_hole vineyard_haven) = 1
   \<and> top_exposure_dirs_v2 (shelter_signature_of plane open_water ''wh-vh-ssa'' ''woods-hole''
      ''vineyard-haven'' woods_hole vineyard_haven) = [''N'', ''NNE'', ''NE'']"
proof -
  let ?s1 = "route_exposure plane open_water ''wh-vh-ssa'' ''woods-hole''
      ''vineyard-haven'' woods_hole vineyard_haven"
  let ?s2 = "shelter_signature_of plane open_water ''wh-vh-ssa'' ''woods-hole''
      ''vineyard-haven'' woods_hole vineyard_haven"
  note m = aggregate_and_top_three[of plane PORTS open_water "''wh-vh-ssa''"
      "''woods-hole''" "''vineyard-haven''"]
  have one: "x = 1" if "x = of_int k / 1000" "\<bar>of_int k / 1000 - (16::real) / 16\<bar> \<le> 1 / 2000"
    for x :: real and k :: int
  proof -
    from that(2) have "(999::real) < of_int k" "(of_int k :: real) < 1001"
      by linarith+
    then have "999 < k" "k < 1001" by linarith+
    then have "k = 1000" by linarith
    then show ?thesis using that(1) by simp
  qed
  from m obtain k1 :: int where "avg_exposure ?s1 = of_int k1 / 1000"
    "\<bar>of_int k1 / 1000 - sum_list (map snd (exposure_by_dir ?s1)) / 16\<bar> \<le> 1 / 2000"
    unfolding compute_wh_vh_v1 by blast
  then have a1: "avg_exposure ?s1 = 1"
    unfolding exposure_by_dir_open_water all_ones_scores by (rule one)
  from m obtain k2 :: int where "mean_shelter_ratio ?s2 = of_int k2 / 1000"
    "\<bar>of_int k2 / 1000 - sum_list (map snd (shelter_ratio_by_dir ?s2)) / 16\<bar> \<le> 1 / 2000"
    unfolding compute_wh_vh_v2 by blast
  then have a2: "mean_shelter_ratio ?s2 = 1"
    unfolding shelter_ratio_by_dir_open_water all_ones_scores by (rule one)
  show ?thesis
    unfolding a1 a2 top_exposure_dirs_v1_eq top_exposure_dirs_v2_eq
      exposure_by_dir_open_water shelter_ratio_by_dir_open_water all_ones_top
    by simp
qed

lemma sample_points_plane_south_north:
  assumes "p \<in> set (sample_route_points plane port_south port_north SAMPLE_POINTS_PER_ROUTE_v2)"
  shows "fst p = 0 \<and> 0 < snd p \<and> snd p < 1"
proof -
  from assms obtain i :: int where i: "0 \<le> i" "i \<le> 49"
    and p: "p = (0, (of_int i + 0.5) / 50)"
    by (auto simp: sample_route_points_def plane_def port_south_def port_north_def
        SAMPLE_POINTS_PER_ROUTE_v2_def set_py_range)
  have "(0::real) \<le> of_int i" "(of_int i :: real) \<le> 49" using i by simp_all
  then show ?thesis using p by simp
qed

lemma sin_radians_east: "0 < deg \<Longrightarrow> deg < 180 \<Longrightarrow> sin (radians deg) \<noteq> 0"
proof -
  assume d: "0 < deg" "deg < 180"
  have "0 < radians deg" using d by (simp add: radians_def)
  moreover have "radians deg < pi"
  proof -
    have "deg * pi < 180 * pi" using d by simp
    then show ?thesis by (simp add: radians_def)
  qed
  ultimately have "0 < sin (radians deg)" by (rule sin_gt_zero)
  then show ?thesis by simp
qed

lemma sin_radians_west: "180 < deg \<Longrightarrow> deg < 360 \<Longrightarrow> sin (radians deg) \<noteq> 0"
proof -
  assume d: "180 < deg" "deg < 360"
  have "180 * pi < deg * pi" "deg * pi < 360 * pi" using d by simp_all
  then have "pi < radians deg" "radians deg < 2 * pi"
    by (simp_all add: radians_def)
  then have "sin (radians deg) < 0" by (rule sin_lt_zero)
  then show ?thesis by simp
qed

lemma cast_channel_north:
  assumes "fst p = 0" "0 < snd p"
  shows "cast_ray_to_land p 0 north_channel (MAX_RAY_KM * 1000) = 30"
proof -
  obtain x y where p: "p = (x, y)" by (cases p)
  have "ray_march 50 p 0 north_channel 30000 = 30000 / 1000"
  proof (rule ray_march_open)
    show "(50::real) \<noteq> 0" by simp
    fix k :: nat
    have "0 < y + (1 + real k) * 50" using assms p by (simp add: add_pos_pos)
    then show "\<not> north_channel (ray_test_point p 0 (real (Suc k) * 50))"
      using assms p by (simp add: ray_test_point_north north_channel_def)
  qed
  then show ?thesis
    by (simp add: cast_ray_to_land_def RAY_STEP_M_v2_def MAX_RAY_KM_def)
qed

lemma cast_channel_side:
  assumes "sin (radians deg) \<noteq> 0" "fst p = 0"
  shows "cast_ray_to_land p deg north_channel (MAX_RAY_KM * 1000) = 1 / 20"
proof -
  have "ray_march 50 p deg north_channel 30000 = 50 / 1000"
    using assms
    by (intro ray_march_first)
      (simp_all add: ray_test_point_def north_channel_def case_prod_unfold Let_def)
  then show ?thesis
    by (simp add: cast_ray_to_land_def RAY_STEP_M_v2_def MAX_RAY_KM_def)
qed

lemma cast_channel_south:
  assumes "fst p = 0" "snd p < 50"
  shows "cast_ray_to_land p 180 north_channel (MAX_RAY_KM * 1000) = 1 / 20"
proof -
  have "radians 180 = pi" by (simp add: radians_def)
  then have "ray_march 50 p 180 north_channel 30000 = 50 / 1000"
    using assms
    by (intro ray_march_first)
      (simp_all add: ray_test_point_def north_channel_def case_prod_unfold Let_def)
  then show ?thesis
    by (simp add: cast_ray_to_land_def RAY_STEP_M_v2_def MAX_RAY_KM_def)
qed

lemma channel_north:
  "intersection_distances
     (sample_route_points plane port_south port_north SAMPLE_POINTS_PER_ROUTE_v2) 0
     north_channel = replicate 50 30"
proof -
  have "intersection_distances
     (sample_route_points plane port_south port_north SAMPLE_POINTS_PER_ROUTE_v2) 0
     north_channel = replicate (length
        (sample_route_points plane port_south port_north SAMPLE_POINTS_PER_ROUTE_v2)) 30"
    unfolding intersection_distances_def
    using sample_points_plane_south_north
    by (intro map_const_replicate cast_channel_north) blast+
  then show ?thesis
    by (simp add: sample_route_points_length SAMPLE_POINTS_PER_ROUTE_v2_def)
qed

lemma channel_side:
  assumes "sin (radians deg) \<noteq> 0 \<or> deg = 180"
  shows "intersection_distances
     (sample_route_points plane port_south port_north SAMPLE_POINTS_PER_ROUTE_v2) deg
     north_channel = replicate 50 (1 / 20)"
proof -
  have "cast_ray_to_land p deg north_channel (MAX_RAY_KM * 1000) = 1 / 20"
    if "p \<in> set (sample_route_points plane port_south port_north SAMPLE_POINTS_PER_ROUTE_v2)"
    for p
    using assms sample_points_plane_south_north[OF that]
      cast_channel_side[of deg p] cast_channel_south[of p] by auto
  then have "intersection_distances
     (sample_route_points plane port_south port_north SAMPLE_POINTS_PER_ROUTE_v2) deg
     north_channel = replicate (length
        (sample_route_points plane port_south port_north SAMPLE_POINTS_PER_ROUTE_v2)) (1 / 20)"
    unfolding intersection_distances_def by (intro map_const_replicate)
  then show ?thesis
    by (simp add: sample_route_points_length SAMPLE_POINTS_PER_ROUTE_v2_def)
qed

lemma channel_score_east:
  "0 < deg \<Longrightarrow> deg \<le> 180 \<Longrightarrow>
    shelter_ratio (intersection_distances
     (sample_route_points plane port_south port_north SAMPLE_POINTS_PER_ROUTE_v2) deg
     north_channel) = 0"
  using channel_side[of deg] sin_radians_east[of deg]
  by (cases "deg = 180") (simp_all add: shelter_ratio_close)

lemma channel_score_west:
  "180 < deg \<Longrightarrow> deg < 360 \<Longrightarrow>
    shelter_ratio (intersection_distances
     (sample_route_points plane port_south port_north SAMPLE_POINTS_PER_ROUTE_v2) deg
     north_channel) = 0"
  using channel_side[of deg] sin_radians_west[of deg]
  by (simp add: shelter_ratio_close)

lemma channel_score_north:
  "shelter_ratio (intersection_distances
     (sample_route_points plane port_south port_north SAMPLE_POINTS_PER_ROUTE_v2) 0
     north_channel) = 1"
  by (simp add: channel_north shelter_ratio_open)

lemma channel_scores:
  "shelter_ratio_by_dir (shelter_signature_of plane north_channel ''s-n'' ''south'' ''north''
      port_south port_north) =
    [(''N'', 1), (''NNE'', 0), (''NE'', 0), (''ENE'', 0), (''E'', 0), (''ESE'', 0),
     (''SE'', 0), (''SSE'', 0), (''S'', 0), (''SSW'', 0), (''SW'', 0), (''WSW'', 0),
     (''W'', 0), (''WNW'', 0), (''NW'', 0), (''NNW'', 0)]"
  unfolding shelter_ratio_by_dir_eq COMPASS_DIRECTIONS_def
  by (simp add: channel_score_north channel_score_east channel_score_west py_round_0 py_round_1)

lemma py_round_sixteenth: "py_round (1 / 16) 3 = 31 / 500"
proof -
  have "\<lfloor>125 / 2 :: real\<rfloor> = 62" by (simp add: floor_eq_iff)
  then show ?thesis
    by (simp add: py_round_def round_half_even_def)
qed

text \<open>
  C9 as stated does not hold of the aggregate: for the route from \<open>(0, 0)\<close> to \<open>(0, 1)\<close> and
  land everywhere but due north, the v2 scores are 1 for N and 0 for the 15 other
  directions; their mean is 0.0625 and the aggregate of the signature is 0.062.
\<close>

theorem aggregate_is_rounded:
  "sum_list (map snd (shelter_ratio_by_dir (shelter_signature_of plane north_channel
      ''s-n'' ''south'' ''north'' port_south port_north))) / 16 = 1 / 16
   \<and> mean_shelter_ratio (shelter_signature_of plane north_channel ''s-n'' ''south'' ''north''
      port_south port_north) = 31 / 500
   \<and> (31 / 500 :: real) \<noteq> 1 / 16"
  unfolding mean_shelter_ratio_eq channel_scores
  by (simp add: np_mean_def py_round_sixteenth)

subsection \<open>Reversing a route, in exact arithmetic\<close>

lemma sample_route_points_rev:
  "sample_route_points wgs b a n = rev (sample_route_points wgs a b n)"
proof (rule nth_equalityI)
  show "length (sample_route_points wgs b a n) = length (rev (sample_route_points wgs a b n))"
    by (simp add: sample_route_points_length)
next
  fix i
  assume "i < length (sample_route_points wgs b a n)"
  then have i: "i < nat n" by (simp add: sample_route_points_length)
  then have n: "0 < n" by simp
  obtain x1 y1 where a: "wgs (lon a) (lat a) = (x1, y1)" by (cases "wgs (lon a) (lat a)")
  obtain x2 y2 where b: "wgs (lon b) (lat b) = (x2, y2)" by (cases "wgs (lon b) (lat b)")
  define j where "j = nat n - Suc i"
  have j: "j < nat n" using i by (simp add: j_def)
  have ij: "(of_int (int j) :: real) = of_int n - 1 - of_int (int i)"
  proof -
    have "int j = n - 1 - int i" using i by (simp add: j_def)
    then show ?thesis by simp
  qed
  have nz: "(of_int n :: real) \<noteq> 0" using n by simp
  have t: "(of_int (int j) + 0.5) / (of_int n :: real) = 1 - (of_int (int i) + 0.5) / of_int n"
    unfolding ij using nz by (simp add: field_simps)
  have l: "sample_route_points wgs b a n ! i =
      (x2 + ((of_int (int i) + 0.5) / of_int n) * (x1 - x2),
       y2 + ((of_int (int i) + 0.5) / of_int n) * (y1 - y2))"
    using i a b by (simp add: sample_route_points_def py_range_len py_range_nth)
  have "rev (sample_route_points wgs a b n) ! i = sample_route_points wgs a b n ! j"
    using i by (simp add: rev_nth sample_route_points_length j_def)
  also have "\<dots> = (x1 + ((of_int (int j) + 0.5) / of_int n) * (x2 - x1),
       y1 + ((of_int (int j) + 0.5) / of_int n) * (y2 - y1))"
    using j a b by (simp add: sample_route_points_def py_range_len py_range_nth)
  also have "\<dots> = (x2 + ((of_int (int i) + 0.5) / of_int n) * (x1 - x2),
       y2 + ((of_int (int i) + 0.5) / of_int n) * (y1 - y2))"
  proof -
    have "u + (1 - s) * (v - u) = v + s * (u - v)" for u v s :: real
      by (simp add: algebra_simps)
    then show ?thesis unfolding t by (simp only:)
  qed
  finally show "sample_route_points wgs b a n ! i = rev (sample_route_points wgs a b n) ! i"
    using l by simp
qed

lemma fetch_distances_rev:
  "fetch_distances (rev pts) deg land_geom = rev (fetch_distances pts deg land_geom)"
  by (simp add: fetch_distances_def rev_map)

lemma intersection_distances_rev:
  "intersection_distances (rev pts) deg land_geom =
    rev (intersection_distances pts deg land_geom)"
  by (simp add: intersection_distances_def rev_map)

lemma np_median_rev: "np_median (rev xs) = np_median xs"
  by (rule np_median_mset) simp

lemma shelter_ratio_rev: "shelter_ratio (rev xs) = shelter_ratio xs"
proof -
  have "length (filter (\<lambda>x. x \<le> SHELTER_THRESHOLD_KM) (rev xs)) =
      length (filter (\<lambda>x. x \<le> SHELTER_THRESHOLD_KM) xs)"
    by (simp add: rev_filter[symmetric])
  then show ?thesis by (simp add: shelter_ratio_count)
qed

lemma effective_fetch_rev: "effective_fetch (rev xs) = effective_fetch xs"
  by (simp add: effective_fetch_eq rev_map[symmetric] np_median_rev)

text \<open>
  What follows holds of the interpolation over the real numbers only. There, swapping origin
  and destination reverses the sequence of sample points, and with it the signature body
  is the same. The scripts compute \<^verbatim>\<open>x1 + t * (x2 - x1)\<close> and \<^verbatim>\<open>x2 + t * (x1 - x2)\<close> in binary
  floating point, where the two results differ in the last bits for many sample points; a
  ray that starts a last bit to the other side of a coastline then stops at another step.
  Whether the two signatures of a route and its reverse coincide is therefore decided by
  float rounding, which this embedding does not represent.
\<close>

lemma reversed_route_exact_arithmetic:
  "sample_route_points wgs b a n = rev (sample_route_points wgs a b n)
   \<and> mset (fetch_distances (sample_route_points wgs b a n) deg land_geom) =
       mset (fetch_distances (sample_route_points wgs a b n) deg land_geom)
   \<and> mset (intersection_distances (sample_route_points wgs b a n) deg land_geom) =
       mset (intersection_distances (sample_route_points wgs a b n) deg land_geom)
   \<and> exposure_by_dir (route_exposure wgs land_geom rid' ds os b a) =
       exposure_by_dir (route_exposure wgs land_geom rid os ds a b)
   \<and> fetch_km_by_dir (route_exposure wgs land_geom rid' ds os b a) =
       fetch_km_by_dir (route_exposure wgs land_geom rid os ds a b)
   \<and> avg_exposure (route_exposure wgs land_geom rid' ds os b a) =
       avg_exposure (route_exposure wgs land_geom rid os ds a b)
   \<and> top_exposure_dirs_v1 (route_exposure wgs land_geom rid' ds os b a) =
       top_exposure_dirs_v1 (route_exposure wgs land_geom rid os ds a b)
   \<and> shelter_ratio_by_dir (shelter_signature_of wgs land_geom rid' ds os b a) =
       shelter_ratio_by_dir (shelter_signature_of wgs land_geom rid os ds a b)
   \<and> effective_open_fetch_km_by_dir (shelter_signature_of wgs land_geom rid' ds os b a) =
       effective_open_fetch_km_by_dir (shelter_signature_of wgs land_geom rid os ds a b)
   \<and> mean_shelter_ratio (shelter_signature_of wgs land_geom rid' ds os b a) =
       mean_shelter_ratio (shelter_signature_of wgs land_geom rid os ds a b)
   \<and> top_exposure_dirs_v2 (shelter_signature_of wgs land_geom rid' ds os b a) =
       top_exposure_dirs_v2 (shelter_signature_of wgs land_geom rid os ds a b)"
proof -
  have r: "sample_route_points wgs b a n = rev (sample_route_points wgs a b n)" for n
    by (rule sample_route_points_rev)
  have e1: "exposure_by_dir (route_exposure wgs land_geom rid' ds os b a) =
       exposure_by_dir (route_exposure wgs land_geom rid os ds a b)"
    unfolding exposure_by_dir_eq r fetch_distances_rev np_median_rev ..
  have f1: "fetch_km_by_dir (route_exposure wgs land_geom rid' ds os b a) =
       fetch_km_by_dir (route_exposure wgs land_geom rid os ds a b)"
    unfolding fetch_km_by_dir_eq r fetch_distances_rev np_median_rev ..
  have e2: "shelter_ratio_by_dir (shelter_signature_of wgs land_geom rid' ds os b a) =
       shelter_ratio_by_dir (shelter_signature_of wgs land_geom rid os ds a b)"
    unfolding shelter_ratio_by_dir_eq r intersection_distances_rev shelter_ratio_rev ..
  have f2: "effective_open_fetch_km_by_dir (shelter_signature_of wgs land_geom rid' ds os b a) =
       effective_open_fetch_km_by_dir (shelter_signature_of wgs land_geom rid os ds a b)"
    unfolding effective_fetch_by_dir_eq r intersection_distances_rev effective_fetch_rev ..
  show ?thesis
    unfolding avg_exposure_eq top_exposure_dirs_v1_eq mean_shelter_ratio_eq
      top_exposure_dirs_v2_eq e1 f1 e2 f2
    by (simp add: r fetch_distances_rev intersection_distances_rev)
qed

subsection \<open>The distance check of v2\<close>

lemma haversine_same_point: "haversine_km la lo la lo = 0"
  by (simp add: haversine_km_def radians_def py_atan2_def)

lemma validate_distances_loop_False:
  "validate_distances_loop ports expected False \<noteq> Inr True"
  by (induction ports expected False rule: validate_distances_loop.induct)
    (auto split: option.splits)

lemma validate_distances_loop_error:
  "validate_distances_loop ports expected all_pass = Inl e \<Longrightarrow> e = KeyError"
  by (induction ports expected all_pass rule: validate_distances_loop.induct)
    (auto simp: Let_def split: option.splits if_splits)

lemma validate_distances_loop_fails:
  assumes "((os, ds), win) \<in> set expected"
    and "map_of ports os = Some p1" and "map_of ports ds = Some p2"
    and "\<not> (min_km win \<le> haversine_km (lat p1) (lon p1) (lat p2) (lon p2)
           \<and> haversine_km (lat p1) (lon p1) (lat p2) (lon p2) \<le> max_km win)"
  shows "validate_distances_loop ports expected all_pass \<noteq> Inr True"
  using assms
proof (induction ports expected all_pass rule: validate_distances_loop.induct)
  case (1 ports all_pass)
  then show ?case by simp
next
  case (2 ports origin_slug dest_slug exp rest all_pass)
  show ?case
  proof (cases "((os, ds), win) = ((origin_slug, dest_slug), exp)")
    case True
    then show ?thesis
      using "2.prems" validate_distances_loop_False[of ports rest]
      by (auto simp: Let_def)
  next
    case False
    then have "((os, ds), win) \<in> set rest" using "2.prems"(1) by auto
    then show ?thesis
      using "2.IH" "2.prems"(2-4)
      by (auto simp: Let_def split: option.splits)
  qed
qed

lemma validate_distances_loop_resolved:
  assumes "\<forall>((o', d'), e) \<in> set expected. map_of ports o' \<noteq> None \<and> map_of ports d' \<noteq> None"
  shows "\<exists>b. validate_distances_loop ports expected all_pass = Inr b"
  using assms
  by (induction ports expected all_pass rule: validate_distances_loop.induct)
    (auto simp: Let_def split: option.splits)

text \<open>
  The validator passes exactly when every pair of the table names two known ports whose
  great-circle distance lies in the pair's window; unless it passes, \<^verbatim>\<open>main\<close> of v2 leaves
  the state as it found it.
\<close>

lemma validate_distances_loop_True_iff:
  "validate_distances_loop ports expected all_pass = Inr True \<longleftrightarrow>
    all_pass \<and> (\<forall>((os, ds), win) \<in> set expected.
      \<exists>p1 p2. map_of ports os = Some p1 \<and> map_of ports ds = Some p2
        \<and> min_km win \<le> haversine_km (lat p1) (lon p1) (lat p2) (lon p2)
        \<and> haversine_km (lat p1) (lon p1) (lat p2) (lon p2) \<le> max_km win)"
proof (induction ports expected all_pass rule: validate_distances_loop.induct)
  case (1 ports all_pass)
  then show ?case by simp
next
  case (2 ports origin_slug dest_slug exp rest all_pass)
  show ?case
  proof (cases "map_of ports origin_slug")
    case None
    then show ?thesis by simp
  next
    case (Some p1)
    note p1 = this
    show ?thesis
    proof (cases "map_of ports dest_slug")
      case None
      then show ?thesis using p1 by simp
    next
      case (Some p2)
      show ?thesis
        using "2.IH"[OF p1 Some refl refl] p1 Some
        by (auto simp: Let_def)
    qed
  qed
qed

lemma validate_route_distances_True_iff:
  "validate_route_distances ports expected = Inr True \<longleftrightarrow>
    (\<forall>((os, ds), win) \<in> set expected.
      \<exists>p1 p2. map_of ports os = Some p1 \<and> map_of ports ds = Some p2
        \<and> min_km win \<le> haversine_km (lat p1) (lon p1) (lat p2) (lon p2)
        \<and> haversine_km (lat p1) (lon p1) (lat p2) (lon p2) \<le> max_km win)"
  unfolding validate_route_distances_def validate_distances_loop_True_iff by simp

lemma main_v2_proceeds_only_after_distance_check:
  "validate_route_distances ports expected \<noteq> Inr True \<Longrightarrow>
    snd (main_v2 float_sub wgs ports routes expected loaded now w) = w"
  by (cases "validate_route_distances ports expected")
    (auto simp: main_v2_def split: bool.splits)

text \<open>
  C2. \<^verbatim>\<open>main\<close> of v2 validates the route distances first: the great-circle distance of
  every pair of \<^verbatim>\<open>EXPECTED_DISTANCES\<close> is compared with the pair's window, and when a pair
  lies outside its window the run ends (exit status 1, or \<^verbatim>\<open>KeyError\<close> when another pair
  names a port that is not in the table) with the state untouched: no ray has been cast,
  no output written, whatever the land mask and the routes. (v1 has no table of expected
  distances, so no pair to check.)
\<close>

theorem distance_check_precedes_ray_casting:
  assumes "((os, ds), win) \<in> set expected_distances"
    and "map_of ports os = Some p1" and "map_of ports ds = Some p2"
    and "\<not> (min_km win \<le> haversine_km (lat p1) (lon p1) (lat p2) (lon p2)
           \<and> haversine_km (lat p1) (lon p1) (lat p2) (lon p2) \<le> max_km win)"
  shows "snd (main_v2 float_sub wgs ports routes expected_distances loaded now w) = w
    \<and> rays_cast (snd (main_v2 float_sub wgs ports routes expected_distances loaded now w)) = rays_cast w
    \<and> artifact (snd (main_v2 float_sub wgs ports routes expected_distances loaded now w)) = artifact w
    \<and> (fst (main_v2 float_sub wgs ports routes expected_distances loaded now w) = SysExit 1
        \<or> fst (main_v2 float_sub wgs ports routes expected_distances loaded now w) = Uncaught KeyError)
    \<and> ((\<forall>((o', d'), e) \<in> set expected_distances.
            map_of ports o' \<noteq> None \<and> map_of ports d' \<noteq> None) \<longrightarrow>
         fst (main_v2 float_sub wgs ports routes expected_distances loaded now w) = SysExit 1)"
proof -
  have nt: "validate_route_distances ports expected_distances \<noteq> Inr True"
    unfolding validate_route_distances_def
    using validate_distances_loop_fails[OF assms] .
  show ?thesis
  proof (cases "validate_route_distances ports expected_distances")
    case (Inl e)
    then have "e = KeyError"
      unfolding validate_route_distances_def by (rule validate_distances_loop_error)
    moreover have "\<not> (\<forall>((o', d'), e) \<in> set expected_distances.
            map_of ports o' \<noteq> None \<and> map_of ports d' \<noteq> None)"
    proof
      assume "\<forall>((o', d'), e) \<in> set expected_distances.
            map_of ports o' \<noteq> None \<and> map_of ports d' \<noteq> None"
      then obtain b where "validate_distances_loop ports expected_distances True = Inr b"
        using validate_distances_loop_resolved by blast
      then show False
        using Inl unfolding validate_route_distances_def by simp
    qed
    ultimately show ?thesis
      using Inl by (simp add: main_v2_def)
  next
    case (Inr b)
    then have "b = False" using nt by auto
    then show ?thesis
      using Inr by (simp add: main_v2_def)
  qed
qed

theorem distance_check_witness:
  "main_v2 exact_sub plane misplaced_ports ROUTES EXPECTED_DISTANCES (Some open_water) ''now'' fresh_v2
    = (SysExit 1, fresh_v2)"
proof -
  have a: "((''woods-hole'', ''vineyard-haven''), \<lparr>min_km = 8, max_km = 12, expected_km = 10\<rparr>)
      \<in> set EXPECTED_DISTANCES"
    by (simp add: EXPECTED_DISTANCES_def)
  have b: "map_of misplaced_ports ''woods-hole'' =
      Some \<lparr>lat = 41.5234, lon = -70.6693, name = ''Woods Hole''\<rparr>"
    by (simp add: misplaced_ports_def)
  have c: "map_of misplaced_ports ''vineyard-haven'' =
      Some \<lparr>lat = 41.5234, lon = -70.6693, name = ''Vineyard Haven''\<rparr>"
    by (simp add: misplaced_ports_def)
  have d: "\<not> (min_km \<lparr>min_km = 8, max_km = 12, expected_km = 10\<rparr>
        \<le> haversine_km (lat \<lparr>lat = 41.5234, lon = -70.6693, name = ''Woods Hole''\<rparr>)
            (lon \<lparr>lat = 41.5234, lon = -70.6693, name = ''Woods Hole''\<rparr>)
            (lat \<lparr>lat = 41.5234, lon = -70.6693, name = ''Vineyard Haven''\<rparr>)
            (lon \<lparr>lat = 41.5234, lon = -70.6693, name = ''Vineyard Haven''\<rparr>)
      \<and> haversine_km (lat \<lparr>lat = 41.5234, lon = -70.6693, name = ''Woods Hole''\<rparr>)
            (lon \<lparr>lat = 41.5234, lon = -70.6693, name = ''Woods Hole''\<rparr>)
            (lat \<lparr>lat = 41.5234, lon = -70.6693, name = ''Vineyard Haven''\<rparr>)
            (lon \<lparr>lat = 41.5234, lon = -70.6693, name = ''Vineyard Haven''\<rparr>)
        \<le> max_km \<lparr>min_km = 8, max_km = 12, expected_km = 10\<rparr>)"
    by (simp add: haversine_same_point)
  have e: "\<forall>((o', d'), e) \<in> set EXPECTED_DISTANCES.
      map_of misplaced_ports o' \<noteq> None \<and> map_of misplaced_ports d' \<noteq> None"
    by (simp add: EXPECTED_DISTANCES_def misplaced_ports_def)
  from distance_check_precedes_ray_casting[OF a b c d, of exact_sub plane ROUTES
      "Some open_water" "''now''" fresh_v2] e
  have "snd (main_v2 exact_sub plane misplaced_ports ROUTES EXPECTED_DISTANCES (Some open_water) ''now''
          fresh_v2) = fresh_v2"
    and "fst (main_v2 exact_sub plane misplaced_ports ROUTES EXPECTED_DISTANCES (Some open_water) ''now''
          fresh_v2) = SysExit 1"
    by blast+
  then show ?thesis
    by (simp add: prod_eq_iff)
qed

subsection \<open>The ordering check\<close>

lemma compute_signatures_artifact:
  "compute_signatures wgs ports land_geom routes results w = (r, w') \<Longrightarrow>
    artifact w' = artifact w"
proof (induction routes arbitrary: results w)
  case Nil
  then show ?case by auto
next
  case (Cons rt routes)
  show ?case
  proof (cases "compute_shelter_signature wgs ports land_geom (route_id rt) (origin rt) (dest rt)")
    case (Inl e)
    then show ?thesis using Cons.prems by auto
  next
    case (Inr s)
    then show ?thesis using Cons.prems Cons.IH by fastforce
  qed
qed

lemma compute_exposures_artifact:
  "compute_exposures wgs ports land_geom routes results w = (r, w') \<Longrightarrow>
    artifact w' = artifact w"
proof (induction routes arbitrary: results w)
  case Nil
  then show ?case by auto
next
  case (Cons rt routes)
  show ?case
  proof (cases "compute_route_exposure wgs ports land_geom (route_id rt) (origin rt) (dest rt)")
    case (Inl e)
    then show ?thesis using Cons.prems by auto
  next
    case (Inr s)
    then show ?thesis using Cons.prems Cons.IH by fastforce
  qed
qed

text \<open>
  C1, amended. In the v2 pipeline, for every result set on which
  \<^verbatim>\<open>validate_exposure_ordering\<close> returns failure (whatever the results are and whatever the
  float subtraction rounds to) the end of \<^verbatim>\<open>main\<close> is \<^verbatim>\<open>sys.exit(1)\<close> with the output file
  left as it was; so a run whose results fail the check does not return normally and
  writes nothing, and when its distance validation has passed it ends with
  \<^verbatim>\<open>sys.exit(1)\<close>.
\<close>

theorem ordering_failure_stops_v2:
  assumes "\<not> validate_exposure_ordering float_sub results"
  shows "validate_and_save_v2 float_sub results now w' = (SysExit 1, w')
    \<and> (compute_signatures wgs ports land_geom routes [] w = (Inr results, w') \<longrightarrow>
          artifact (snd (main_v2 float_sub wgs ports routes expected_distances
                      (Some land_geom) now w)) = artifact w
        \<and> fst (main_v2 float_sub wgs ports routes expected_distances (Some land_geom) now w)
            \<noteq> Returned
        \<and> (validate_route_distances ports expected_distances = Inr True \<longrightarrow>
              main_v2 float_sub wgs ports routes expected_distances (Some land_geom) now w
                = (SysExit 1, w')))"
proof (intro conjI impI)
  show s: "validate_and_save_v2 float_sub results now w' = (SysExit 1, w')"
    using assms by (simp add: validate_and_save_v2_def)
  assume c: "compute_signatures wgs ports land_geom routes [] w = (Inr results, w')"
  have a: "artifact w' = artifact w"
    using compute_signatures_artifact[OF c] .
  have m: "artifact (snd (main_v2 float_sub wgs ports routes expected_distances
                      (Some land_geom) now w)) = artifact w
      \<and> fst (main_v2 float_sub wgs ports routes expected_distances (Some land_geom) now w)
            \<noteq> Returned"
  proof (cases "validate_route_distances ports expected_distances")
    case (Inl e)
    then show ?thesis by (simp add: main_v2_def)
  next
    case (Inr b)
    then show ?thesis
      using c s a by (cases b) (simp_all add: main_v2_def)
  qed
  from m show "artifact (snd (main_v2 float_sub wgs ports routes expected_distances
                      (Some land_geom) now w)) = artifact w" by blast
  from m show "fst (main_v2 float_sub wgs ports routes expected_distances (Some land_geom)
      now w) \<noteq> Returned" by blast
  assume "validate_route_distances ports expected_distances = Inr True"
  then show "main_v2 float_sub wgs ports routes expected_distances (Some land_geom) now w
                = (SysExit 1, w')"
    using c s by (simp add: main_v2_def)
qed

lemma compute_signatures_closed:
  assumes "\<forall>r \<in> set routes. map_of ports (origin r) \<noteq> None \<and> map_of ports (dest r) \<noteq> None"
  shows "compute_signatures wgs ports land_geom routes results w =
    (Inr (results @ map (\<lambda>r. shelter_signature_of wgs land_geom (route_id r) (origin r) (dest r)
              (the (map_of ports (origin r))) (the (map_of ports (dest r)))) routes),
     w\<lparr>rays_cast := rays_cast w
          + length routes * (length COMPASS_DIRECTIONS * nat SAMPLE_POINTS_PER_ROUTE_v2)\<rparr>)"
  using assms
proof (induction routes arbitrary: results w)
  case Nil
  then show ?case by simp
next
  case (Cons rt routes)
  then obtain p1 p2 where p: "map_of ports (origin rt) = Some p1" "map_of ports (dest rt) = Some p2"
    by auto
  have c: "compute_shelter_signature wgs ports land_geom (route_id rt) (origin rt) (dest rt) =
      Inr (shelter_signature_of wgs land_geom (route_id rt) (origin rt) (dest rt) p1 p2)"
    by (simp add: compute_shelter_signature_def p)
  show ?case
    using Cons.prems by (simp add: c p Cons.IH algebra_simps)
qed

lemma compute_exposures_closed:
  assumes "\<forall>r \<in> set routes. map_of ports (origin r) \<noteq> None \<and> map_of ports (dest r) \<noteq> None"
  shows "compute_exposures wgs ports land_geom routes results w =
    (Inr (results @ map (\<lambda>r. route_exposure wgs land_geom (route_id r) (origin r) (dest r)
              (the (map_of ports (origin r))) (the (map_of ports (dest r)))) routes),
     w\<lparr>rays_cast := rays_cast w
          + length routes * (length COMPASS_DIRECTIONS * nat SAMPLE_POINTS_PER_ROUTE_v1)\<rparr>)"
  using assms
proof (induction routes arbitrary: results w)
  case Nil
  then show ?case by simp
next
  case (Cons rt routes)
  then obtain p1 p2 where p: "map_of ports (origin rt) = Some p1" "map_of ports (dest rt) = Some p2"
    by auto
  have c: "compute_route_exposure wgs ports land_geom (route_id rt) (origin rt) (dest rt) =
      Inr (route_exposure wgs land_geom (route_id rt) (origin rt) (dest rt) p1 p2)"
    by (simp add: compute_route_exposure_def p)
  show ?case
    using Cons.prems by (simp add: c p Cons.IH algebra_simps)
qed

lemma routes_resolved:
  "\<forall>r \<in> set ROUTES. map_of PORTS (origin r) \<noteq> None \<and> map_of PORTS (dest r) \<noteq> None"
  by (simp add: ROUTES_def PORTS_def)

lemma route_id_v2_of [simp]:
  "route_id_v2 (shelter_signature_of wgs land_geom rid os ds a b) = rid"
  by (simp add: shelter_signature_of_def Let_def)

lemma ports_v1_of [simp]:
  "origin_port_v1 (route_exposure wgs land_geom rid os ds a b) = os"
  "destination_port_v1 (route_exposure wgs land_geom rid os ds a b) = ds"
  by (simp_all add: route_exposure_def Let_def)

lemma mean_shelter_ratio_open_water [simp]:
  "mean_shelter_ratio (shelter_signature_of wgs open_water rid os ds a b) = 1"
  unfolding mean_shelter_ratio_eq shelter_ratio_by_dir_open_water np_mean_def all_ones_scores
  by (simp add: compass_length py_round_1)

lemma avg_exposure_open_water [simp]:
  "avg_exposure (route_exposure wgs open_water rid os ds a b) = 1"
  unfolding avg_exposure_eq exposure_by_dir_open_water np_mean_def all_ones_scores
  by (simp add: compass_length py_round_1)

lemma open_water_ordering_fails:
  "\<not> validate_exposure_ordering exact_sub
      (map (\<lambda>r. shelter_signature_of wgs open_water (route_id r) (origin r) (dest r)
              (the (map_of PORTS (origin r))) (the (map_of PORTS (dest r)))) ROUTES)"
  by (simp add: validate_exposure_ordering_def ROUTES_def exact_sub_def)

lemma open_water_results_fail:
  "\<not> validate_results
      (map (\<lambda>r. route_exposure wgs open_water (route_id r) (origin r) (dest r)
              (the (map_of PORTS (origin r))) (the (map_of PORTS (dest r)))) ROUTES)"
  by (simp add: validate_results_def route_exposures_def ROUTES_def)

lemma py_atan2_range: "0 \<le> y \<Longrightarrow> 0 \<le> py_atan2 y x \<and> py_atan2 y x \<le> pi"
proof -
  assume y: "0 \<le> y"
  consider "0 < x" | "x < 0" | "x = 0" by linarith
  then show ?thesis
  proof cases
    case 1
    then have "0 \<le> y / x" using y by simp
    then have "0 \<le> arctan (y / x)" by simp
    moreover have "arctan (y / x) \<le> pi"
      using arctan_ubound[of "y / x"] pi_gt_zero by linarith
    ultimately show ?thesis using 1 by (simp add: py_atan2_def)
  next
    case 2
    then have "y / x \<le> 0" using y by (simp add: divide_nonneg_neg)
    then have "arctan (y / x) \<le> 0" by simp
    moreover have "0 \<le> arctan (y / x) + pi"
      using arctan_lbound[of "y / x"] pi_gt_zero by linarith
    ultimately show ?thesis using 2 y by (simp add: py_atan2_def)
  next
    case 3
    then show ?thesis using y pi_gt_zero by (simp add: py_atan2_def)
  qed
qed

lemma cos_radians_pos: "- 90 < d \<Longrightarrow> d < 90 \<Longrightarrow> 0 < cos (radians d)"
proof -
  assume d: "- 90 < d" "d < 90"
  have "(- 90) * pi < d * pi" "d * pi < 90 * pi"
    using d pi_gt_zero by (simp_all only: mult_less_cancel_right_pos)
  then have "- (pi / 2) < radians d" "radians d < pi / 2"
    by (simp_all add: radians_def)
  then show ?thesis by (rule cos_gt_zero_pi)
qed

lemma haversine_km_range:
  assumes "- 90 < lat1" "lat1 < 90" "- 90 < lat2" "lat2 < 90"
  shows "0 \<le> haversine_km lat1 lon1 lat2 lon2 \<and> haversine_km lat1 lon1 lat2 lon2 \<le> 60000"
proof -
  define a where "a = (sin (radians (lat2 - lat1) / 2))\<^sup>2
      + cos (radians lat1) * cos (radians lat2) * (sin (radians (lon2 - lon1) / 2))\<^sup>2"
  have "0 \<le> cos (radians lat1) * cos (radians lat2)"
    using cos_radians_pos[OF assms(1,2)] cos_radians_pos[OF assms(3,4)] by simp
  then have "0 \<le> a" by (simp add: a_def)
  then have "0 \<le> sqrt a" by simp
  then have r: "0 \<le> py_atan2 (sqrt a) (sqrt (1 - a))" "py_atan2 (sqrt a) (sqrt (1 - a)) \<le> pi"
    using py_atan2_range by blast+
  have h: "haversine_km lat1 lon1 lat2 lon2 = 6371 * (2 * py_atan2 (sqrt a) (sqrt (1 - a)))"
    by (simp add: haversine_km_def a_def Let_def)
  have "6371 * (2 * py_atan2 (sqrt a) (sqrt (1 - a))) \<le> 6371 * (2 * 4)"
    using r(2) pi_less_4 by (intro mult_left_mono) simp_all
  then show ?thesis unfolding h using r(1) by simp
qed

lemma wide_window_passes: "validate_route_distances PORTS wide_window = Inr True"
proof -
  have "0 \<le> haversine_km 41.6362 (-70.2826) 41.2835 (-70.0995)
      \<and> haversine_km 41.6362 (-70.2826) 41.2835 (-70.0995) \<le> 60000"
    by (rule haversine_km_range) simp_all
  then show ?thesis
    by (simp add: validate_route_distances_def wide_window_def PORTS_def)
qed

theorem ordering_failure_stops_v2_witness:
  "main_v2 exact_sub plane PORTS ROUTES wide_window (Some open_water) ''now'' fresh_v2
    = (SysExit 1, \<lparr>artifact = None, rays_cast = 8000\<rparr>)"
proof -
  have c: "compute_signatures plane PORTS open_water ROUTES [] fresh_v2 =
    (Inr (map (\<lambda>r. shelter_signature_of plane open_water (route_id r) (origin r) (dest r)
              (the (map_of PORTS (origin r))) (the (map_of PORTS (dest r)))) ROUTES),
     fresh_v2\<lparr>rays_cast := rays_cast fresh_v2
          + length ROUTES * (length COMPASS_DIRECTIONS * nat SAMPLE_POINTS_PER_ROUTE_v2)\<rparr>)"
    using compute_signatures_closed[OF routes_resolved, of plane open_water "[]" fresh_v2]
    by simp
  have n: "fresh_v2\<lparr>rays_cast := rays_cast fresh_v2
          + length ROUTES * (length COMPASS_DIRECTIONS * nat SAMPLE_POINTS_PER_ROUTE_v2)\<rparr>
      = \<lparr>artifact = None, rays_cast = 8000\<rparr>"
    by (simp add: fresh_v2_def ROUTES_def compass_length SAMPLE_POINTS_PER_ROUTE_v2_def)
  show ?thesis
    using ordering_failure_stops_v2[OF open_water_ordering_fails[of plane],
        where now = "''now''" and wgs = plane and ports = PORTS and land_geom = open_water
          and routes = ROUTES and w = fresh_v2 and expected_distances = wide_window
          and w' = "fresh_v2\<lparr>rays_cast := rays_cast fresh_v2
            + length ROUTES * (length COMPASS_DIRECTIONS * nat SAMPLE_POINTS_PER_ROUTE_v2)\<rparr>"]
      c wide_window_passes
    by (simp add: n)
qed

text \<open>
  C1 as stated does not hold of v1: with no land in range every route has average
  exposure 1, \<^verbatim>\<open>validate_results\<close> returns \<open>False\<close> (1 is not greater than 1), and \<^verbatim>\<open>main\<close>
  writes the output file and returns.
\<close>

theorem ordering_failure_ignored_v1:
  "(case compute_exposures plane PORTS open_water ROUTES [] fresh_v1 of
      (Inr results, w') \<Rightarrow> \<not> validate_results results
    | (Inl e, w') \<Rightarrow> False)
   \<and> fst (main_v1 plane PORTS ROUTES (Some open_water) ''now'' fresh_v1) = Returned
   \<and> artifact (snd (main_v1 plane PORTS ROUTES (Some open_water) ''now'' fresh_v1)) \<noteq> None"
  using open_water_results_fail[of plane]
  by (simp add: main_v1_def compute_exposures_closed[OF routes_resolved])

end
